theory Spec2Isabelle
  imports Complex_Main
begin

section \<open>Values, errors and tensors\<close>

text \<open>
  The program is a PyTorch model (\<open>SarcasmDetector\<close>) and its training loop
  (\<open>train_epoch\<close>), both in \<open>main.py\<close>. Tensors are nested lists of reals: the reals
  stand for the 32-bit floats of the program, so rounding, overflow and NaN are outside this
  model. The layers of the tensor library that \<open>main.py\<close> instantiates (\<open>Conv1d\<close>,
  \<open>LSTM\<close>, \<open>Linear\<close>, \<open>Dropout\<close>, \<open>ReLU\<close>, \<open>Softmax\<close>, \<open>CrossEntropyLoss\<close>) are written
  out from their documented semantics, with every shape check that raises as an error branch.
  The pretrained encoder, the random generator, automatic differentiation and the optimizer's
  update rule are parameters of the model.
\<close>

datatype error =
    TypeError | ValueError | IndexError | RuntimeError | ZeroDivisionError
  | OSError | FloatNaN

definition and_then :: "error + 'a \<Rightarrow> ('a \<Rightarrow> error + 'b) \<Rightarrow> error + 'b" where
  "and_then r f = (case r of Inl e \<Rightarrow> Inl e | Inr v \<Rightarrow> f v)"

fun map_err :: "('a \<Rightarrow> error + 'b) \<Rightarrow> 'a list \<Rightarrow> error + 'b list" where
  "map_err f [] = Inr []"
| "map_err f (x # xs) =
     (case f x of
        Inl e \<Rightarrow> Inl e
      | Inr y \<Rightarrow> (case map_err f xs of Inl e \<Rightarrow> Inl e | Inr ys \<Rightarrow> Inr (y # ys)))"

definition ncols :: "'a list list \<Rightarrow> nat" where
  "ncols m = (case m of [] \<Rightarrow> 0 | r # _ \<Rightarrow> length r)"

text \<open>\<open>t.permute(0, 2, 1)\<close>: every sample's matrix is transposed.\<close>

definition transpose_mat :: "'a list list \<Rightarrow> 'a list list" where
  "transpose_mat m = map (\<lambda>j. map (\<lambda>r. r ! j) m) [0..<ncols m]"

definition permute_021 :: "'a list list list \<Rightarrow> 'a list list list" where
  "permute_021 t = map transpose_mat t"

text \<open>A batch of \<open>rows \<times> cols\<close> matrices.\<close>

definition has_shape :: "nat \<Rightarrow> nat \<Rightarrow> 'a list list list \<Rightarrow> bool" where
  "has_shape rows cols t =
     list_all (\<lambda>s. length s = rows \<and> list_all (\<lambda>v. length v = cols) s) t"

section \<open>Layers\<close>

subsection \<open>ReLU and Softmax\<close>

definition relu :: "real \<Rightarrow> real" where
  "relu v = max 0 v"

definition softmax :: "real list \<Rightarrow> real list" where
  "softmax vs = map (\<lambda>v. exp v / sum_list (map exp vs)) vs"

subsection \<open>Conv1d\<close>

record conv1d_layer =
  in_channels :: nat
  out_channels :: nat
  kernel_size :: nat
  padding :: nat
  conv_weight :: "nat \<Rightarrow> nat \<Rightarrow> nat \<Rightarrow> real"
  conv_bias :: "nat \<Rightarrow> real"

definition pad_row :: "nat \<Rightarrow> real list \<Rightarrow> real list" where
  "pad_row p r = replicate p 0 @ r @ replicate p 0"

text \<open>
  One sample in channel-first layout (\<open>in_channels \<times> length\<close>). The layer raises when
  the channel count is not \<open>in_channels\<close> and when the padded length is shorter than the
  kernel; the output has \<open>padded length - kernel_size + 1\<close> positions (stride 1).
\<close>

definition conv1d_sample :: "conv1d_layer \<Rightarrow> real list list \<Rightarrow> error + real list list" where
  "conv1d_sample cv x =
     (if length x \<noteq> in_channels cv then Inl RuntimeError
      else let lp = ncols x + 2 * padding cv in
        if lp < kernel_size cv then Inl RuntimeError
        else Inr (map (\<lambda>oc.
               map (\<lambda>t. conv_bias cv oc +
                      (\<Sum>c\<leftarrow>[0..<in_channels cv]. \<Sum>j\<leftarrow>[0..<kernel_size cv].
                          conv_weight cv oc c j * pad_row (padding cv) (x ! c) ! (t + j)))
                 [0..<lp - kernel_size cv + 1])
               [0..<out_channels cv]))"

subsection \<open>Dropout\<close>

text \<open>
  The random keep-mask is an argument (\<open>keep\<close>, by position). In evaluation mode the layer
  is the identity. In training mode a kept element is scaled by \<open>1 / (1 - p)\<close> and a dropped
  one becomes 0; with \<open>p = 0\<close> every element is kept and with \<open>p = 1\<close> none is.
\<close>

definition dropout_vec :: "real \<Rightarrow> bool \<Rightarrow> (nat \<Rightarrow> bool) \<Rightarrow> real list \<Rightarrow> real list" where
  "dropout_vec p tr keep v =
     (if \<not> tr \<or> p = 0 then v
      else if p = 1 then map (\<lambda>_. 0) v
      else map (\<lambda>k. if keep k then v ! k / (1 - p) else 0) [0..<length v])"

definition dropout_mat ::
  "real \<Rightarrow> bool \<Rightarrow> (nat \<Rightarrow> nat \<Rightarrow> bool) \<Rightarrow> real list list \<Rightarrow> real list list" where
  "dropout_mat p tr keep x = map (\<lambda>i. dropout_vec p tr (keep i) (x ! i)) [0..<length x]"

subsection \<open>Linear\<close>

record linear_layer =
  in_features :: nat
  out_features :: nat
  lin_weight :: "nat \<Rightarrow> nat \<Rightarrow> real"
  lin_bias :: "nat \<Rightarrow> real"

definition linear_sample :: "linear_layer \<Rightarrow> real list \<Rightarrow> error + real list" where
  "linear_sample l x =
     (if length x \<noteq> in_features l then Inl RuntimeError
      else Inr (map (\<lambda>k. lin_bias l k + (\<Sum>j\<leftarrow>[0..<in_features l]. lin_weight l k j * x ! j))
                  [0..<out_features l]))"

subsection \<open>LSTM (2 layers, bidirectional, batch first)\<close>

record lstm_dir =
  weight_ih :: "nat \<Rightarrow> nat \<Rightarrow> real"
  weight_hh :: "nat \<Rightarrow> nat \<Rightarrow> real"
  bias_ih :: "nat \<Rightarrow> real"
  bias_hh :: "nat \<Rightarrow> real"

record lstm_layer =
  input_size :: nat
  hidden_size :: nat
  lstm_dropout :: real
  l0 :: lstm_dir
  l0_reverse :: lstm_dir
  l1 :: lstm_dir
  l1_reverse :: lstm_dir

definition sigmoid :: "real \<Rightarrow> real" where
  "sigmoid v = 1 / (1 + exp (- v))"

text \<open>
  One cell step on the state \<open>(h, c)\<close>. The \<open>4 * hs\<close> gate rows are ordered input, forget,
  cell, output, as the library stores them.
\<close>

definition lstm_cell ::
  "nat \<Rightarrow> nat \<Rightarrow> lstm_dir \<Rightarrow> real list \<times> real list \<Rightarrow> real list \<Rightarrow> real list \<times> real list" where
  "lstm_cell n hs d st x =
     (let h = fst st; c = snd st;
          gate = (\<lambda>k. bias_ih d k + bias_hh d k
                    + (\<Sum>j\<leftarrow>[0..<n]. weight_ih d k j * x ! j)
                    + (\<Sum>j\<leftarrow>[0..<hs]. weight_hh d k j * h ! j));
          c' = map (\<lambda>k. sigmoid (gate (hs + k)) * c ! k
                        + sigmoid (gate k) * tanh (gate (2 * hs + k))) [0..<hs];
          h' = map (\<lambda>k. sigmoid (gate (3 * hs + k)) * tanh (c' ! k)) [0..<hs]
      in (h', c'))"

fun lstm_scan ::
  "nat \<Rightarrow> nat \<Rightarrow> lstm_dir \<Rightarrow> real list \<times> real list \<Rightarrow> real list list
     \<Rightarrow> (real list \<times> real list) list" where
  "lstm_scan n hs d st [] = []"
| "lstm_scan n hs d st (x # xs) =
     (let st' = lstm_cell n hs d st x in st' # lstm_scan n hs d st' xs)"

definition zero_state :: "nat \<Rightarrow> real list \<times> real list" where
  "zero_state hs = (replicate hs 0, replicate hs 0)"

text \<open>
  One bidirectional layer over a sequence: the forward direction reads it first to last, the
  reverse direction last to first, both from the zero state. The output at position \<open>t\<close> is
  the forward hidden state at \<open>t\<close> followed by the reverse hidden state at \<open>t\<close>. The final
  state of the forward direction is its state at the last position; the final state of the
  reverse direction is its state at position 0.
\<close>

definition bilstm_layer ::
  "nat \<Rightarrow> nat \<Rightarrow> lstm_dir \<Rightarrow> lstm_dir \<Rightarrow> real list list
     \<Rightarrow> real list list \<times> (real list \<times> real list) \<times> (real list \<times> real list)" where
  "bilstm_layer n hs fw bw xs =
     (let f = lstm_scan n hs fw (zero_state hs) xs;
          b = rev (lstm_scan n hs bw (zero_state hs) (rev xs))
      in (map (\<lambda>t. fst (f ! t) @ fst (b ! t)) [0..<length xs], last f, hd b))"

text \<open>
  One sample (\<open>length \<times> input_size\<close>). The result is the top layer's output sequence and the
  pair \<open>(h_n, c_n)\<close> of final states, ordered layer 0 forward, layer 0 reverse, layer 1
  forward, layer 1 reverse. Dropout acts on the output of layer 0 only.
\<close>

definition lstm_sample ::
  "lstm_layer \<Rightarrow> bool \<Rightarrow> (nat \<Rightarrow> nat \<Rightarrow> bool) \<Rightarrow> real list list
     \<Rightarrow> error + (real list list \<times> real list list \<times> real list list)" where
  "lstm_sample l tr keep xs =
     (if xs = [] then Inl RuntimeError
      else if \<not> list_all (\<lambda>v. length v = input_size l) xs then Inl RuntimeError
      else
        (case bilstm_layer (input_size l) (hidden_size l) (l0 l) (l0_reverse l) xs of
           (out0, f0, b0) \<Rightarrow>
             (case bilstm_layer (2 * hidden_size l) (hidden_size l) (l1 l) (l1_reverse l)
                     (dropout_mat (lstm_dropout l) tr keep out0) of
                (out1, f1, b1) \<Rightarrow>
                  Inr (out1, map fst [f0, b0, f1, b1], map snd [f0, b0, f1, b1]))))"

text \<open>The batch: samples are independent; the states are kept per sample.\<close>

definition lstm_apply ::
  "lstm_layer \<Rightarrow> bool \<Rightarrow> (nat \<Rightarrow> nat \<Rightarrow> nat \<Rightarrow> bool) \<Rightarrow> real list list list
     \<Rightarrow> error + (real list list list \<times> (real list list \<times> real list list) list)" where
  "lstm_apply l tr keep x =
     and_then (map_err (\<lambda>i. lstm_sample l tr (keep i) (x ! i)) [0..<length x])
       (\<lambda>rs. Inr (map fst rs, map snd rs))"

text \<open>\<open>t[:, -1, :]\<close> on one sample: the last position, an error on an empty sequence.\<close>

definition last_step :: "'a list \<Rightarrow> error + 'a" where
  "last_step s = (case s of [] \<Rightarrow> Inl IndexError | _ # _ \<Rightarrow> Inr (last s))"

subsection \<open>CrossEntropyLoss (mean reduction, \<open>ignore_index = -100\<close>)\<close>

text \<open>
  The criterion that \<open>main.py\<close> passes to \<open>train_epoch\<close>. It normalises its input rows itself
  (a log-softmax) whatever they are. A batch in which every target is ignored gives a NaN
  mean in the program; the reals have none, so that outcome is the value \<open>Inl FloatNaN\<close>.
\<close>

definition cross_entropy :: "real list list \<Rightarrow> int list \<Rightarrow> error + real" where
  "cross_entropy inp tgt =
     (if length inp \<noteq> length tgt then Inl ValueError
      else if list_ex (\<lambda>t. t \<noteq> - 100 \<and> (t < 0 \<or> int (ncols inp) \<le> t)) tgt then Inl IndexError
      else let kept = filter (\<lambda>rt. snd rt \<noteq> - 100) (zip inp tgt) in
        if kept = [] then Inl FloatNaN
        else Inr ((\<Sum>rt\<leftarrow>kept. - ln (softmax (fst rt) ! nat (snd rt))) / real (length kept)))"

section \<open>The model: \<open>SarcasmDetector\<close>\<close>

text \<open>
  The encoder's weights are of an arbitrary type \<open>'w\<close>. The trainable tensors of the other
  layers are grouped as \<open>head_params\<close>, the shape in which gradients and optimizer updates
  reach them. Each submodule whose behaviour depends on the mode carries its own
  \<open>training\<close> flag, as library modules do.
\<close>

type_synonym conv_params = "(nat \<Rightarrow> nat \<Rightarrow> nat \<Rightarrow> real) \<times> (nat \<Rightarrow> real)"
type_synonym lstm_params = "lstm_dir \<times> lstm_dir \<times> lstm_dir \<times> lstm_dir"
type_synonym linear_params = "(nat \<Rightarrow> nat \<Rightarrow> real) \<times> (nat \<Rightarrow> real)"
type_synonym head_params = "conv_params \<times> lstm_params \<times> linear_params \<times> linear_params"

record 'w SarcasmDetector =
  bert :: 'w
  bert_requires_grad :: bool
  bert_grad :: "'w option"
  bert_training :: bool
  bert_dim :: nat
  cnn_out_channels :: nat
  lstm_hidden_size :: nat
  dense_hidden_size :: nat
  conv1d :: conv1d_layer
  lstm :: lstm_layer
  dense1 :: linear_layer
  dense2 :: linear_layer
  dropout :: real
  training :: bool
  lstm_training :: bool
  dropout_training :: bool
  head_grad :: "head_params option"

text \<open>Values a caller can pass for a constructor option.\<close>

datatype pyval = PyFloat real | PyInt int | PyBool bool | PyStr string | PyNone

fun truthy :: "pyval \<Rightarrow> bool" where
  "truthy (PyFloat r) = (r \<noteq> 0)"
| "truthy (PyInt i) = (i \<noteq> 0)"
| "truthy (PyBool b) = b"
| "truthy (PyStr s) = (s \<noteq> [])"
| "truthy PyNone = False"

text \<open>
  The check of \<open>LSTM\<close> on its \<open>dropout\<close> argument: a number, not a bool, in the closed
  interval from 0 to 1; otherwise \<open>ValueError\<close>. \<open>Dropout\<close> checks the same interval.
\<close>

fun dropout_number :: "pyval \<Rightarrow> error + real" where
  "dropout_number (PyFloat r) = (if 0 \<le> r \<and> r \<le> 1 then Inr r else Inl ValueError)"
| "dropout_number (PyInt i) = (if 0 \<le> i \<and> i \<le> 1 then Inr (real_of_int i) else Inl ValueError)"
| "dropout_number (PyBool b) = Inl ValueError"
| "dropout_number (PyStr s) = Inl ValueError"
| "dropout_number PyNone = Inl ValueError"

text \<open>
  \<open>__init__\<close>. \<open>pretrained\<close> is the outcome of \<open>BertModel.from_pretrained\<close> (the weights, or
  the error of a failed load); the loaded encoder is in evaluation mode and its parameters
  require gradients until the loop over them clears the flag. \<open>init\<close> holds the random
  initial values of the other layers' tensors. New modules start in training mode.
\<close>

definition SarcasmDetector_init ::
  "error + 'w \<Rightarrow> head_params \<Rightarrow> pyval \<Rightarrow> pyval \<Rightarrow> error + 'w SarcasmDetector" where
  "SarcasmDetector_init pretrained init dropout_rate freeze_bert =
     (case init of ((cw, cb), (p0, p0r, p1, p1r), (w1, b1), (w2, b2)) \<Rightarrow>
      and_then pretrained (\<lambda>w.
      let requires = (if truthy freeze_bert then False else True);
          bert_dim = 768;
          cnn_out_channels = 256;
          lstm_hidden_size = 128;
          dense_hidden_size = 64;
          conv = \<lparr>in_channels = bert_dim, out_channels = cnn_out_channels, kernel_size = 3,
                  padding = 1, conv_weight = cw, conv_bias = cb\<rparr>
      in
      and_then (dropout_number dropout_rate) (\<lambda>p.
      let rnn = \<lparr>input_size = cnn_out_channels, hidden_size = lstm_hidden_size,
                 lstm_dropout = p, l0 = p0, l0_reverse = p0r, l1 = p1, l1_reverse = p1r\<rparr>;
          d1 = \<lparr>in_features = lstm_hidden_size * 2, out_features = dense_hidden_size,
                lin_weight = w1, lin_bias = b1\<rparr>;
          d2 = \<lparr>in_features = dense_hidden_size, out_features = 2,
                lin_weight = w2, lin_bias = b2\<rparr>
      in
      and_then (dropout_number dropout_rate) (\<lambda>q.
      Inr \<lparr>bert = w, bert_requires_grad = requires, bert_grad = None, bert_training = False,
           bert_dim = bert_dim, cnn_out_channels = cnn_out_channels,
           lstm_hidden_size = lstm_hidden_size, dense_hidden_size = dense_hidden_size,
           conv1d = conv, lstm = rnn, dense1 = d1, dense2 = d2, dropout = q,
           training = True, lstm_training = True, dropout_training = True,
           head_grad = None\<rparr>))))"

text \<open>
  The call \<open>SarcasmDetector(**options)\<close>: a keyword that \<open>__init__\<close> does not declare raises
  \<open>TypeError\<close> before the body runs; a missing one takes its default.
\<close>

definition construct ::
  "error + 'w \<Rightarrow> head_params \<Rightarrow> (string \<rightharpoonup> pyval) \<Rightarrow> error + 'w SarcasmDetector" where
  "construct pretrained init options =
     (if \<not> dom options \<subseteq> {''dropout_rate'', ''freeze_bert''} then Inl TypeError
      else SarcasmDetector_init pretrained init
             (case options ''dropout_rate'' of None \<Rightarrow> PyFloat 0.3 | Some v \<Rightarrow> v)
             (case options ''freeze_bert'' of None \<Rightarrow> PyBool True | Some v \<Rightarrow> v))"

subsection \<open>The forward pass\<close>

text \<open>
  What one forward pass draws from the random generator: the encoder's own draws (a seed for
  the encoder to use in training mode) and the keep-masks of the two dropout sites.
\<close>

record noise =
  enc_seed :: nat
  lstm_keep :: "nat \<Rightarrow> nat \<Rightarrow> nat \<Rightarrow> bool"
  head_keep :: "nat \<Rightarrow> nat \<Rightarrow> bool"

text \<open>
  The encoder: weights, whether gradients are tracked, whether it is in training mode, its
  random draws, token ids and attention mask; it returns \<open>last_hidden_state\<close> or raises.
\<close>

type_synonym 'w encoder =
  "'w \<Rightarrow> bool \<Rightarrow> bool \<Rightarrow> nat \<Rightarrow> int list list \<Rightarrow> int list list \<Rightarrow> error + real list list list"

datatype event =
    SetTrainMode
  | ZeroGrad
  | ForwardCall
  | EncoderCall bool bool
  | LossComputed real
  | Backward
  | OptimizerStep

text \<open>Lines 56 to 58: permute, convolution, ReLU, permute back.\<close>

definition cnn_features :: "'w SarcasmDetector \<Rightarrow> real list list list \<Rightarrow> error + real list list list" where
  "cnn_features m bert_embeddings =
     (let cnn_in = permute_021 bert_embeddings in
      and_then (map_err (conv1d_sample (conv1d m)) cnn_in) (\<lambda>c.
      let cnn_out = map (map (map relu)) c;
          lstm_in = permute_021 cnn_out
      in Inr lstm_in))"

text \<open>Lines 61 and 62: the recurrent layer, then the last position of its output.\<close>

definition aggregate ::
  "'w SarcasmDetector \<Rightarrow> noise \<Rightarrow> real list list list \<Rightarrow> error + real list list" where
  "aggregate m nz lstm_in =
     and_then (lstm_apply (lstm m) (lstm_training m) (lstm_keep nz) lstm_in) (\<lambda>r.
     let lstm_out = fst r in
     map_err last_step lstm_out)"

text \<open>Lines 65 to 68: the classifier head up to the raw scores.\<close>

definition classify :: "'w SarcasmDetector \<Rightarrow> noise \<Rightarrow> real list list \<Rightarrow> error + real list list" where
  "classify m nz final_hidden =
     and_then (map_err (linear_sample (dense1 m)) final_hidden) (\<lambda>x.
     let x = map (map relu) x;
         x = dropout_mat (dropout m) (dropout_training m) (head_keep nz) x
     in map_err (linear_sample (dense2 m)) x)"

text \<open>
  The value of \<open>logits\<close> (line 68), with the events of the pass. The encoder runs inside
  \<open>torch.no_grad()\<close>: gradient tracking is off for that call, whatever the flags of the
  encoder's parameters; the mode it runs in is the encoder module's own \<open>training\<close> flag.
\<close>

definition forward_logits ::
  "'w encoder \<Rightarrow> 'w SarcasmDetector \<Rightarrow> noise \<Rightarrow> int list list \<Rightarrow> int list list
     \<Rightarrow> event list \<times> (error + real list list)" where
  "forward_logits enc m nz input_ids attention_mask =
     (let grad_enabled = False in
      ([EncoderCall grad_enabled (bert_training m)],
       and_then (enc (bert m) grad_enabled (bert_training m) (enc_seed nz)
                   input_ids attention_mask) (\<lambda>bert_embeddings.
       and_then (cnn_features m bert_embeddings) (\<lambda>lstm_in.
       and_then (aggregate m nz lstm_in) (\<lambda>final_hidden.
       classify m nz final_hidden)))))"

text \<open>\<open>forward\<close>: line 69 applies \<open>Softmax(dim=1)\<close> to the logits, row by row.\<close>

definition forward ::
  "'w encoder \<Rightarrow> 'w SarcasmDetector \<Rightarrow> noise \<Rightarrow> int list list \<Rightarrow> int list list
     \<Rightarrow> event list \<times> (error + real list list)" where
  "forward enc m nz input_ids attention_mask =
     (case forward_logits enc m nz input_ids attention_mask of
        (evs, r) \<Rightarrow> (evs, and_then r (\<lambda>logits.
          let predictions = map softmax logits in Inr predictions)))"

section \<open>The training loop: \<open>train_epoch\<close>\<close>

record batch =
  input_ids :: "int list list"
  attention_mask :: "int list list"
  labels :: "int list"

text \<open>\<open>model.train()\<close> sets the flag of the module and of every submodule, the encoder included.\<close>

definition train :: "'w SarcasmDetector \<Rightarrow> 'w SarcasmDetector" where
  "train m = m\<lparr>training := True, bert_training := True, lstm_training := True,
               dropout_training := True\<rparr>"

definition head_of :: "'w SarcasmDetector \<Rightarrow> head_params" where
  "head_of m =
     ((conv_weight (conv1d m), conv_bias (conv1d m)),
      (l0 (lstm m), l0_reverse (lstm m), l1 (lstm m), l1_reverse (lstm m)),
      (lin_weight (dense1 m), lin_bias (dense1 m)),
      (lin_weight (dense2 m), lin_bias (dense2 m)))"

definition load_head :: "head_params \<Rightarrow> 'w SarcasmDetector \<Rightarrow> 'w SarcasmDetector" where
  "load_head hp m =
     (case hp of ((cw, cb), (p0, p0r, p1, p1r), (w1, b1), (w2, b2)) \<Rightarrow>
        m\<lparr>conv1d := (conv1d m)\<lparr>conv_weight := cw, conv_bias := cb\<rparr>,
          lstm := (lstm m)\<lparr>l0 := p0, l0_reverse := p0r, l1 := p1, l1_reverse := p1r\<rparr>,
          dense1 := (dense1 m)\<lparr>lin_weight := w1, lin_bias := b1\<rparr>,
          dense2 := (dense2 m)\<lparr>lin_weight := w2, lin_bias := b2\<rparr>\<rparr>)"

text \<open>
  The optimizer is bound to all parameters of the model, as \<open>main.py\<close> binds it
  (\<open>model.parameters()\<close>). Its update rules and its internal state are parameters;
  what the library fixes is that \<open>zero_grad\<close> clears every gradient and that \<open>step\<close> skips a
  parameter whose gradient is absent.
\<close>

record ('w, 's) optimizer =
  opt_state :: 's
  update_bert :: "'s \<Rightarrow> 'w \<Rightarrow> 'w \<Rightarrow> 'w"
  update_head :: "'s \<Rightarrow> head_params \<Rightarrow> head_params \<Rightarrow> head_params"
  advance :: "'s \<Rightarrow> 'w option \<Rightarrow> head_params option \<Rightarrow> 's"

definition zero_grad :: "'w SarcasmDetector \<Rightarrow> 'w SarcasmDetector" where
  "zero_grad m = m\<lparr>bert_grad := None, head_grad := None\<rparr>"

definition opt_step ::
  "('w, 's) optimizer \<Rightarrow> 'w SarcasmDetector \<Rightarrow> 'w SarcasmDetector \<times> ('w, 's) optimizer" where
  "opt_step opt m =
     (let s = opt_state opt;
          m1 = (case bert_grad m of
                  None \<Rightarrow> m
                | Some g \<Rightarrow> m\<lparr>bert := update_bert opt s (bert m) g\<rparr>);
          m2 = (case head_grad m of
                  None \<Rightarrow> m1
                | Some g \<Rightarrow> load_head (update_head opt s (head_of m) g) m1)
      in (m2, opt\<lparr>opt_state := advance opt s (bert_grad m) (head_grad m)\<rparr>))"

text \<open>
  Automatic differentiation: \<open>grad_head\<close> gives the new gradient of the non-encoder tensors
  from the old one, the model, the draws and the batch; \<open>grad_bert\<close> likewise for the encoder.
\<close>

record 'w autograd =
  grad_head :: "head_params option \<Rightarrow> 'w SarcasmDetector \<Rightarrow> noise \<Rightarrow> batch \<Rightarrow> head_params"
  grad_bert :: "'w option \<Rightarrow> 'w SarcasmDetector \<Rightarrow> noise \<Rightarrow> batch \<Rightarrow> 'w"

definition encoder_attached :: "event list \<Rightarrow> bool" where
  "encoder_attached evs = list_ex (\<lambda>e. case e of EncoderCall g _ \<Rightarrow> g | _ \<Rightarrow> False) evs"

text \<open>
  \<open>loss.backward()\<close>: the non-encoder tensors take part in the pass with gradients tracked,
  so each receives a gradient. The encoder's parameters receive one only when the encoder
  call tracked gradients and the parameters require them.
\<close>

definition backward ::
  "'w autograd \<Rightarrow> event list \<Rightarrow> noise \<Rightarrow> batch \<Rightarrow> 'w SarcasmDetector \<Rightarrow> 'w SarcasmDetector" where
  "backward ag evs nz b m =
     m\<lparr>head_grad := Some (grad_head ag (head_grad m) m nz b),
       bert_grad := (if encoder_attached evs \<and> bert_requires_grad m
                     then Some (grad_bert ag (bert_grad m) m nz b) else bert_grad m)\<rparr>"

text \<open>
  The body of the loop (lines 78 to 91) on one batch, with the events in the order they
  happen; an exception ends the step with the events so far. The result is the new model and
  optimizer with \<open>loss.item()\<close>. Moving tensors to the device does not change their values.
\<close>

definition train_step ::
  "'w encoder \<Rightarrow> 'w autograd \<Rightarrow> (real list list \<Rightarrow> int list \<Rightarrow> error + real) \<Rightarrow> noise
     \<Rightarrow> 'w SarcasmDetector \<times> ('w, 's) optimizer \<Rightarrow> batch
     \<Rightarrow> event list \<times> (error + (('w SarcasmDetector \<times> ('w, 's) optimizer) \<times> real))" where
  "train_step enc ag criterion nz st b =
     (case st of (model, optimizer) \<Rightarrow>
      let model = zero_grad model in
      case forward enc model nz (input_ids b) (attention_mask b) of (fevs, r) \<Rightarrow>
      (case r of
         Inl e \<Rightarrow> ([ZeroGrad, ForwardCall] @ fevs, Inl e)
       | Inr outputs \<Rightarrow>
          (case criterion outputs (labels b) of
             Inl e \<Rightarrow> ([ZeroGrad, ForwardCall] @ fevs, Inl e)
           | Inr loss \<Rightarrow>
              let model = backward ag fevs nz b model;
                  st' = opt_step optimizer model
              in ([ZeroGrad, ForwardCall] @ fevs @ [LossComputed loss, Backward, OptimizerStep],
                  Inr (st', loss)))))"

text \<open>
  The \<open>for\<close> loop: \<open>i\<close> counts the batches done, \<open>rng i\<close> is what the \<open>i\<close>-th forward pass draws
  from the random generator, \<open>total_loss\<close> is the running sum.
\<close>

fun train_loop ::
  "'w encoder \<Rightarrow> 'w autograd \<Rightarrow> (real list list \<Rightarrow> int list \<Rightarrow> error + real) \<Rightarrow> (nat \<Rightarrow> noise)
     \<Rightarrow> nat \<Rightarrow> 'w SarcasmDetector \<times> ('w, 's) optimizer \<Rightarrow> real \<Rightarrow> batch list
     \<Rightarrow> event list \<times> (error + (('w SarcasmDetector \<times> ('w, 's) optimizer) \<times> real))" where
  "train_loop enc ag criterion rng i st total_loss [] = ([], Inr (st, total_loss))"
| "train_loop enc ag criterion rng i st total_loss (b # bs) =
     (case train_step enc ag criterion (rng i) st b of
        (evs, Inl e) \<Rightarrow> (evs, Inl e)
      | (evs, Inr (st', loss)) \<Rightarrow>
          (case train_loop enc ag criterion rng (Suc i) st' (total_loss + loss) bs of
             (evs', r) \<Rightarrow> (evs @ evs', r)))"

text \<open>
  \<open>train_epoch\<close>: the loader is the list of its batches and \<open>len(train_loader)\<close> their number.
  The final division raises \<open>ZeroDivisionError\<close> when the divisor is 0.
\<close>

definition train_epoch ::
  "'w encoder \<Rightarrow> 'w autograd \<Rightarrow> (nat \<Rightarrow> noise) \<Rightarrow> 'w SarcasmDetector \<Rightarrow> batch list
     \<Rightarrow> ('w, 's) optimizer \<Rightarrow> (real list list \<Rightarrow> int list \<Rightarrow> error + real)
     \<Rightarrow> event list \<times> (error + (('w SarcasmDetector \<times> ('w, 's) optimizer) \<times> real))" where
  "train_epoch enc ag rng model train_loader optimizer criterion =
     (let model = train model;
          total_loss = 0 in
      case train_loop enc ag criterion rng 0 (model, optimizer) total_loss train_loader of
        (evs, r) \<Rightarrow>
          (SetTrainMode # evs,
           and_then r (\<lambda>res. case res of (st, total_loss) \<Rightarrow>
             if length train_loader = 0 then Inl ZeroDivisionError
             else Inr (st, total_loss / real (length train_loader)))))"

section \<open>Auxiliary definitions\<close>

text \<open>
  The layer dimensions as \<open>__init__\<close> fixes them. \<open>model.train()\<close>, \<open>zero_grad\<close>,
  \<open>backward\<close> and the optimizer step leave them alone: they change flags, gradients and
  tensor values only.
\<close>

definition arch :: "'w SarcasmDetector \<Rightarrow> bool" where
  "arch m \<longleftrightarrow>
     bert_dim m = 768 \<and> cnn_out_channels m = 256 \<and> lstm_hidden_size m = 128 \<and>
     dense_hidden_size m = 64 \<and>
     in_channels (conv1d m) = 768 \<and> out_channels (conv1d m) = 256 \<and>
     kernel_size (conv1d m) = 3 \<and> padding (conv1d m) = 1 \<and>
     input_size (lstm m) = 256 \<and> hidden_size (lstm m) = 128 \<and>
     in_features (dense1 m) = 256 \<and> out_features (dense1 m) = 64 \<and>
     in_features (dense2 m) = 64 \<and> out_features (dense2 m) = 2"

text \<open>
  The order of operations the specification gives for one batch: clear the gradients, run the
  forward pass (whose first act is the encoder call, gradient-free and in training mode),
  compute the loss, propagate backward, apply one optimizer step.
\<close>

definition expected_step_events :: "real \<Rightarrow> event list" where
  "expected_step_events loss =
     [ZeroGrad, ForwardCall, EncoderCall False True, LossComputed loss, Backward, OptimizerStep]"


text \<open>
  The model and optimizer after one completed pass through the loop body.
\<close>

definition after_step ::
  "'w autograd \<Rightarrow> noise \<Rightarrow> batch \<Rightarrow> ('w, 's) optimizer \<Rightarrow> 'w SarcasmDetector
     \<Rightarrow> 'w SarcasmDetector \<times> ('w, 's) optimizer" where
  "after_step ag nz b opt m =
     opt_step opt (backward ag [EncoderCall False (bert_training m)] nz b (zero_grad m))"

text \<open>
  The input of the recurrent layer's second (top) level: the output of level 0 after the
  dropout between the levels.
\<close>

definition lstm_mid :: "lstm_layer \<Rightarrow> bool \<Rightarrow> (nat \<Rightarrow> nat \<Rightarrow> bool) \<Rightarrow> real list list \<Rightarrow> real list list" where
  "lstm_mid l tr keep xs =
     dropout_mat (lstm_dropout l) tr keep
       (fst (bilstm_layer (input_size l) (hidden_size l) (l0 l) (l0_reverse l) xs))"

text \<open>
  The reading of the specification's data model: the final hidden state of the top level's
  forward direction followed by the final hidden state of its reverse direction, that is
  \<open>h_n[-2]\<close> and \<open>h_n[-1]\<close> of the library's second result.
\<close>

definition final_states_concat :: "real list list \<Rightarrow> real list" where
  "final_states_concat h_n = h_n ! 2 @ h_n ! 3"

text \<open>
  A concrete instance for the examples below. All weights are 0; the input-hidden bias of the
  top level's reverse direction is 1. The encoder returns zero embeddings of the right shape.
\<close>

definition demo_dir :: "real \<Rightarrow> lstm_dir" where
  "demo_dir \<beta> = \<lparr>weight_ih = (\<lambda>_ _. 0), weight_hh = (\<lambda>_ _. 0), bias_ih = (\<lambda>_. \<beta>), bias_hh = (\<lambda>_. 0)\<rparr>"

definition demo_head :: head_params where
  "demo_head = (((\<lambda>_ _ _. 0), (\<lambda>_. 0)), (demo_dir 0, demo_dir 0, demo_dir 0, demo_dir 1),
                ((\<lambda>_ _. 0), (\<lambda>_. 0)), ((\<lambda>_ _. 0), (\<lambda>_. 0)))"

definition demo_model :: "nat SarcasmDetector" where
  "demo_model =
     \<lparr>bert = 0, bert_requires_grad = False, bert_grad = None, bert_training = False,
      bert_dim = 768, cnn_out_channels = 256, lstm_hidden_size = 128, dense_hidden_size = 64,
      conv1d = \<lparr>in_channels = 768, out_channels = 256, kernel_size = 3, padding = 1,
                 conv_weight = (\<lambda>_ _ _. 0), conv_bias = (\<lambda>_. 0)\<rparr>,
      lstm = \<lparr>input_size = 256, hidden_size = 128, lstm_dropout = 3 / 10,
               l0 = demo_dir 0, l0_reverse = demo_dir 0, l1 = demo_dir 0, l1_reverse = demo_dir 1\<rparr>,
      dense1 = \<lparr>in_features = 256, out_features = 64, lin_weight = (\<lambda>_ _. 0), lin_bias = (\<lambda>_. 0)\<rparr>,
      dense2 = \<lparr>in_features = 64, out_features = 2, lin_weight = (\<lambda>_ _. 0), lin_bias = (\<lambda>_. 0)\<rparr>,
      dropout = 3 / 10, training = True, lstm_training = True, dropout_training = True,
      head_grad = None\<rparr>"

definition demo_noise :: noise where
  "demo_noise = \<lparr>enc_seed = 0, lstm_keep = (\<lambda>_ _ _. True), head_keep = (\<lambda>_ _. True)\<rparr>"

definition demo_features :: "real list list list" where
  "demo_features = [[replicate 256 0, replicate 256 0]]"

text \<open>
  Cell and hidden values of the reverse direction of the instance above after one and after
  two steps from the zero state.
\<close>

definition first_c :: real where "first_c = sigmoid 1 * tanh 1"

definition first_h :: real where "first_h = sigmoid 1 * tanh first_c"

definition second_h :: real where "second_h = sigmoid 1 * tanh (sigmoid 1 * first_c + sigmoid 1 * tanh 1)"

definition demo_encoder :: "nat encoder" where
  "demo_encoder w grad_enabled tr seed ids msk = Inr (map (map (\<lambda>_. replicate 768 0)) ids)"

definition demo_embeddings :: "real list list list" where
  "demo_embeddings = [[replicate 768 0, replicate 768 0]]"

definition demo_batch :: batch where
  "demo_batch = \<lparr>input_ids = [[101, 102]], attention_mask = [[1, 1]], labels = [1]\<rparr>"

definition demo_autograd :: "nat autograd" where
  "demo_autograd = \<lparr>grad_head = (\<lambda>_ _ _ _. demo_head), grad_bert = (\<lambda>_ _ _ _. 0)\<rparr>"

definition demo_optimizer :: "(nat, nat) optimizer" where
  "demo_optimizer = \<lparr>opt_state = 0, update_bert = (\<lambda>_ w _. w), update_head = (\<lambda>_ p _. p),
                      advance = (\<lambda>s _ _. Suc s)\<rparr>"

text \<open>
  The per-batch algorithm of the specification on the state, in its order: the gradients
  are cleared; the forward pass runs on the cleared model and leaves its record of the
  encoder call; the backward pass propagates from that record into the cleared gradients; one
  optimizer step is applied to the result.
\<close>

definition spec_step ::
  "'w encoder \<Rightarrow> 'w autograd \<Rightarrow> noise \<Rightarrow> batch
     \<Rightarrow> 'w SarcasmDetector \<times> ('w, 's) optimizer \<Rightarrow> 'w SarcasmDetector \<times> ('w, 's) optimizer" where
  "spec_step enc ag nz b st =
     (let cleared = zero_grad (fst st);
          tape = fst (forward enc cleared nz (input_ids b) (attention_mask b));
          propagated = backward ag tape nz b cleared
      in opt_step (snd st) propagated)"

text \<open>
  The loss of a batch on the state the batch starts from: the criterion on the output of the
  forward pass of the model with cleared gradients, before this batch's update.
\<close>

definition spec_loss ::
  "'w encoder \<Rightarrow> (real list list \<Rightarrow> int list \<Rightarrow> error + real) \<Rightarrow> noise \<Rightarrow> batch
     \<Rightarrow> 'w SarcasmDetector \<times> ('w, 's) optimizer \<Rightarrow> error + real" where
  "spec_loss enc criterion nz b st =
     and_then (snd (forward enc (zero_grad (fst st)) nz (input_ids b) (attention_mask b)))
       (\<lambda>outputs. criterion outputs (labels b))"

text \<open>
  The state after a list of batches, one \<open>spec_step\<close> per batch, the \<open>i\<close>-th with the draws
  \<open>rng i\<close>.
\<close>

fun spec_steps ::
  "'w encoder \<Rightarrow> 'w autograd \<Rightarrow> (nat \<Rightarrow> noise) \<Rightarrow> nat
     \<Rightarrow> 'w SarcasmDetector \<times> ('w, 's) optimizer \<Rightarrow> batch list
     \<Rightarrow> 'w SarcasmDetector \<times> ('w, 's) optimizer" where
  "spec_steps enc ag rng i st [] = st"
| "spec_steps enc ag rng i st (b # bs) =
     spec_steps enc ag rng (Suc i) (spec_step enc ag (rng i) b st) bs"

section \<open>Properties\<close>

subsection \<open>Shapes through the forward pass\<close>

lemma ncols_Cons: "ncols (r # m) = length r" by (simp add: ncols_def)

lemma length_transpose_mat: "length (transpose_mat m) = ncols m"
  by (simp add: transpose_mat_def)

lemma transpose_mat_rows: "r \<in> set (transpose_mat m) \<Longrightarrow> length r = length m"
  by (auto simp add: transpose_mat_def)

lemma ncols_rect: "m \<noteq> [] \<Longrightarrow> \<forall>r\<in>set m. length r = c \<Longrightarrow> ncols m = c"
  by (cases m) (auto simp: ncols_def)

lemma map_err_Inr:
  "(\<And>x. x \<in> set xs \<Longrightarrow> f x = Inr (g x)) \<Longrightarrow> map_err f xs = Inr (map g xs)"
  by (induction xs) auto

lemma map_err_ex:
  "(\<And>x. x \<in> set xs \<Longrightarrow> \<exists>y. f x = Inr y \<and> P y) \<Longrightarrow>
     \<exists>ys. map_err f xs = Inr ys \<and> length ys = length xs \<and> (\<forall>y\<in>set ys. P y)"
proof (induction xs)
  case Nil
  then show ?case by simp
next
  case (Cons x xs)
  from Cons.prems obtain y where y: "f x = Inr y" "P y" by auto
  from Cons obtain ys where ys: "map_err f xs = Inr ys" "length ys = length xs" "\<forall>y\<in>set ys. P y"
    by auto
  show ?case using y ys by simp
qed

lemma conv1d_sample_shape:
  assumes "length x = in_channels cv" and "kernel_size cv \<le> ncols x + 2 * padding cv"
  shows "\<exists>y. conv1d_sample cv x = Inr y \<and> length y = out_channels cv \<and>
           (\<forall>r\<in>set y. length r = ncols x + 2 * padding cv - kernel_size cv + 1)"
  using assms by (simp add: conv1d_sample_def Let_def)

lemma has_shape_iff:
  "has_shape rows cols t \<longleftrightarrow> (\<forall>s\<in>set t. length s = rows \<and> (\<forall>v\<in>set s. length v = cols))"
  by (simp add: has_shape_def list_all_iff)

lemma transpose_sample_shape:
  assumes "length s = rows" "\<forall>v\<in>set s. length v = cols" "1 \<le> rows"
  shows "length (transpose_mat s) = cols" "\<forall>r\<in>set (transpose_mat s). length r = rows"
proof -
  from assms have "s \<noteq> []" by auto
  with assms show "length (transpose_mat s) = cols"
    by (simp add: length_transpose_mat ncols_rect)
  show "\<forall>r\<in>set (transpose_mat s). length r = rows"
    using assms(1) by (auto dest: transpose_mat_rows)
qed

lemma cnn_features_shape:
  assumes "arch m" and "1 \<le> L" and "has_shape L (bert_dim m) emb"
  shows "\<exists>f. cnn_features m emb = Inr f \<and> length f = length emb \<and>
           has_shape L (cnn_out_channels m) f"
proof -
  let ?cv = "conv1d m"
  have cfg: "in_channels ?cv = 768" "out_channels ?cv = 256" "kernel_size ?cv = 3"
    "padding ?cv = 1" "bert_dim m = 768" "cnn_out_channels m = 256"
    using assms(1) by (simp_all add: arch_def)
  have step: "\<exists>y. conv1d_sample ?cv x = Inr y \<and> (length y = 256 \<and> (\<forall>r\<in>set y. length r = L))"
    if "x \<in> set (permute_021 emb)" for x
  proof -
    from that obtain s where s: "s \<in> set emb" "x = transpose_mat s"
      by (auto simp: permute_021_def)
    with assms(3) have sh: "length s = L" "\<forall>v\<in>set s. length v = 768"
      by (auto simp: has_shape_iff cfg)
    from transpose_sample_shape[OF sh assms(2)] s
    have x: "length x = 768" "\<forall>r\<in>set x. length r = L" by auto
    then have "x \<noteq> []" by auto
    with x have nc: "ncols x = L" by (simp add: ncols_rect)
    from conv1d_sample_shape[of x ?cv] x nc assms(2) cfg show ?thesis by auto
  qed
  from map_err_ex[of "permute_021 emb" "conv1d_sample ?cv"
      "\<lambda>y. length y = 256 \<and> (\<forall>r\<in>set y. length r = L)", OF step]
  obtain c where c: "map_err (conv1d_sample ?cv) (permute_021 emb) = Inr c"
    "length c = length emb" "\<forall>y\<in>set c. length y = 256 \<and> (\<forall>r\<in>set y. length r = L)"
    by (auto simp: permute_021_def)
  let ?f = "permute_021 (map (map (map relu)) c)"
  have f: "cnn_features m emb = Inr ?f"
    by (simp add: cnn_features_def c and_then_def)
  have "has_shape L 256 ?f"
  proof -
    { fix y assume "y \<in> set c"
      with c(3) have y: "length y = 256" "\<forall>r\<in>set y. length r = L" by auto
      have "length (map (map relu) y) = 256" "\<forall>r\<in>set (map (map relu) y). length r = L"
        using y by auto
      from transpose_sample_shape[OF this]
      have "length (transpose_mat (map (map relu) y)) = L \<and>
            (\<forall>v\<in>set (transpose_mat (map (map relu) y)). length v = 256)" by simp }
    then show ?thesis by (auto simp: has_shape_iff permute_021_def)
  qed
  with f c(2) cfg show ?thesis by (simp add: permute_021_def)
qed

lemma lstm_cell_lengths:
  "length (fst (lstm_cell n hs d st x)) = hs" "length (snd (lstm_cell n hs d st x)) = hs"
  by (simp_all add: lstm_cell_def Let_def)

lemma length_lstm_scan: "length (lstm_scan n hs d st xs) = length xs"
  by (induction xs arbitrary: st) (simp_all add: Let_def)

lemma lstm_scan_state_lengths:
  "s \<in> set (lstm_scan n hs d st xs) \<Longrightarrow> length (fst s) = hs"
proof (induction xs arbitrary: st)
  case Nil
  then show ?case by simp
next
  case (Cons x xs)
  from Cons.prems have "s = lstm_cell n hs d st x \<or> s \<in> set (lstm_scan n hs d (lstm_cell n hs d st x) xs)"
    by (simp add: Let_def)
  then show ?case using Cons.IH[of "lstm_cell n hs d st x"] by (auto simp: lstm_cell_lengths)
qed

lemma bilstm_layer_shape:
  "length (fst (bilstm_layer n hs fw bw xs)) = length xs"
  "r \<in> set (fst (bilstm_layer n hs fw bw xs)) \<Longrightarrow> length r = 2 * hs"
proof -
  show "length (fst (bilstm_layer n hs fw bw xs)) = length xs"
    by (simp add: bilstm_layer_def Let_def)
  assume "r \<in> set (fst (bilstm_layer n hs fw bw xs))"
  then obtain t where t: "t < length xs"
    "r = fst (lstm_scan n hs fw (zero_state hs) xs ! t)
       @ fst (rev (lstm_scan n hs bw (zero_state hs) (rev xs)) ! t)"
    by (auto simp: bilstm_layer_def Let_def)
  have "lstm_scan n hs fw (zero_state hs) xs ! t \<in> set (lstm_scan n hs fw (zero_state hs) xs)"
    using t(1) by (simp add: length_lstm_scan)
  moreover have "rev (lstm_scan n hs bw (zero_state hs) (rev xs)) ! t
      \<in> set (lstm_scan n hs bw (zero_state hs) (rev xs))"
    using t(1) nth_mem[of t "rev (lstm_scan n hs bw (zero_state hs) (rev xs))"]
    by (simp add: length_lstm_scan)
  ultimately show "length r = 2 * hs"
    using t(2) by (simp add: lstm_scan_state_lengths)
qed

lemma lstm_sample_shape:
  assumes "xs \<noteq> []" and "\<forall>v\<in>set xs. length v = input_size l"
  shows "\<exists>y. lstm_sample l tr keep xs = Inr y \<and> length (fst y) = length xs \<and>
           (\<forall>r\<in>set (fst y). length r = 2 * hidden_size l)"
proof -
  obtain out0 f0 b0 where l0: "bilstm_layer (input_size l) (hidden_size l) (l0 l) (l0_reverse l) xs
      = (out0, f0, b0)" by (cases "bilstm_layer (input_size l) (hidden_size l) (l0 l) (l0_reverse l) xs") auto
  let ?mid = "dropout_mat (lstm_dropout l) tr keep out0"
  obtain out1 f1 b1 where l1: "bilstm_layer (2 * hidden_size l) (hidden_size l) (l1 l) (l1_reverse l) ?mid
      = (out1, f1, b1)"
    by (cases "bilstm_layer (2 * hidden_size l) (hidden_size l) (l1 l) (l1_reverse l) ?mid") auto
  have len0: "length out0 = length xs"
    using bilstm_layer_shape(1)[of "input_size l" "hidden_size l" "l0 l" "l0_reverse l" xs] l0 by simp
  have lenm: "length ?mid = length xs" by (simp add: dropout_mat_def len0)
  have len1: "length out1 = length xs"
    using bilstm_layer_shape(1)[of "2 * hidden_size l" "hidden_size l" "l1 l" "l1_reverse l" ?mid] l1 lenm
    by simp
  have rows: "\<forall>r\<in>set out1. length r = 2 * hidden_size l"
    using bilstm_layer_shape(2)[of _ "2 * hidden_size l" "hidden_size l" "l1 l" "l1_reverse l" ?mid] l1
    by auto
  have "lstm_sample l tr keep xs = Inr (out1, map fst [f0, b0, f1, b1], map snd [f0, b0, f1, b1])"
    using assms by (simp add: lstm_sample_def list_all_iff l0 l1)
  with len1 rows show ?thesis by simp
qed

lemma linear_sample_shape:
  "length x = in_features l \<Longrightarrow>
     \<exists>y. linear_sample l x = Inr y \<and> length y = out_features l"
  by (simp add: linear_sample_def)

lemma dropout_vec_length: "length (dropout_vec p tr keep v) = length v"
  by (simp add: dropout_vec_def)

lemma dropout_mat_shape:
  "length (dropout_mat p tr keep x) = length x"
  "r \<in> set (dropout_mat p tr keep x) \<Longrightarrow> \<forall>v\<in>set x. length v = c \<Longrightarrow> length r = c"
  by (auto simp: dropout_mat_def dropout_vec_length)

lemma sum_list_exp_nonneg: "0 \<le> sum_list (map exp (vs :: real list))"
  by (induction vs) simp_all

lemma sum_list_exp_pos: "vs \<noteq> [] \<Longrightarrow> 0 < sum_list (map exp (vs :: real list))"
  using sum_list_exp_nonneg by (cases vs) (simp_all add: add_pos_nonneg)

lemma sum_list_divide: "sum_list (map (\<lambda>v. f v / (c::real)) vs) = sum_list (map f vs) / c"
  by (induction vs) (simp_all add: add_divide_distrib)

lemma softmax_length: "length (softmax vs) = length vs"
  by (simp add: softmax_def)

lemma softmax_sum: "vs \<noteq> [] \<Longrightarrow> sum_list (softmax vs) = 1"
  using sum_list_exp_pos[of vs] by (simp add: softmax_def sum_list_divide)

lemma exp_le_sum_list: "v \<in> set vs \<Longrightarrow> exp v \<le> sum_list (map exp (vs :: real list))"
proof (induction vs)
  case Nil
  then show ?case by simp
next
  case (Cons a vs)
  have "0 \<le> sum_list (map exp vs)" by (rule sum_list_exp_nonneg)
  with Cons show ?case by (auto intro: add_increasing)
qed

lemma softmax_range: "p \<in> set (softmax vs) \<Longrightarrow> 0 < p \<and> p \<le> 1"
proof -
  assume "p \<in> set (softmax vs)"
  then obtain v where v: "v \<in> set vs" "p = exp v / sum_list (map exp vs)"
    by (auto simp: softmax_def)
  then have ne: "vs \<noteq> []" by auto
  from sum_list_exp_pos[OF ne] exp_le_sum_list[OF v(1)] v(2) show ?thesis by simp
qed

lemma lstm_apply_shape:
  assumes "has_shape L (input_size l) x" and "1 \<le> L"
  shows "\<exists>out st. lstm_apply l tr keep x = Inr (out, st) \<and> length out = length x \<and>
           has_shape L (2 * hidden_size l) out"
proof -
  have step: "\<exists>y. lstm_sample l tr (keep i) (x ! i) = Inr y \<and>
      (length (fst y) = L \<and> (\<forall>r\<in>set (fst y). length r = 2 * hidden_size l))"
    if "i \<in> set [0..<length x]" for i
  proof -
    from that have "x ! i \<in> set x" by simp
    with assms have "length (x ! i) = L" "\<forall>v\<in>set (x ! i). length v = input_size l"
      by (auto simp: has_shape_iff)
    moreover from this assms(2) have "x ! i \<noteq> []" by auto
    ultimately show ?thesis using lstm_sample_shape[of "x ! i" l tr "keep i"] by auto
  qed
  from map_err_ex[of "[0..<length x]" "\<lambda>i. lstm_sample l tr (keep i) (x ! i)"
      "\<lambda>y. length (fst y) = L \<and> (\<forall>r\<in>set (fst y). length r = 2 * hidden_size l)", OF step]
  obtain rs where rs: "map_err (\<lambda>i. lstm_sample l tr (keep i) (x ! i)) [0..<length x] = Inr rs"
    "length rs = length x"
    "\<forall>y\<in>set rs. length (fst y) = L \<and> (\<forall>r\<in>set (fst y). length r = 2 * hidden_size l)"
    by auto
  have "lstm_apply l tr keep x = Inr (map fst rs, map snd rs)"
    by (simp add: lstm_apply_def rs(1) and_then_def)
  moreover have "has_shape L (2 * hidden_size l) (map fst rs)"
    using rs(3) by (auto simp: has_shape_iff)
  ultimately show ?thesis using rs(2) by simp
qed

lemma aggregate_shape:
  assumes "arch m" and "1 \<le> L" and "has_shape L (cnn_out_channels m) lstm_in"
  shows "\<exists>fh. aggregate m nz lstm_in = Inr fh \<and> length fh = length lstm_in \<and>
           (\<forall>v\<in>set fh. length v = 2 * lstm_hidden_size m)"
proof -
  have cfg: "input_size (lstm m) = cnn_out_channels m" "hidden_size (lstm m) = lstm_hidden_size m"
    using assms(1) by (simp_all add: arch_def)
  from lstm_apply_shape[of L "lstm m" lstm_in "lstm_training m" "lstm_keep nz"] assms cfg
  obtain out st where o: "lstm_apply (lstm m) (lstm_training m) (lstm_keep nz) lstm_in = Inr (out, st)"
    "length out = length lstm_in" "has_shape L (2 * lstm_hidden_size m) out"
    by auto
  have step: "\<exists>y. last_step s = Inr y \<and> length y = 2 * lstm_hidden_size m" if "s \<in> set out" for s
  proof -
    from that o(3) have s: "length s = L" "\<forall>v\<in>set s. length v = 2 * lstm_hidden_size m"
      by (auto simp: has_shape_iff)
    with assms(2) have "s \<noteq> []" by auto
    then have "last_step s = Inr (last s)" "last s \<in> set s"
      by (cases s; simp add: last_step_def)+
    with s show ?thesis by auto
  qed
  from map_err_ex[of out last_step "\<lambda>y. length y = 2 * lstm_hidden_size m", OF step]
  obtain fh where "map_err last_step out = Inr fh" "length fh = length out"
    "\<forall>y\<in>set fh. length y = 2 * lstm_hidden_size m" by auto
  then show ?thesis using o by (simp add: aggregate_def and_then_def)
qed

lemma classify_shape:
  assumes "arch m" and "\<forall>v\<in>set fh. length v = 2 * lstm_hidden_size m"
  shows "\<exists>lg. classify m nz fh = Inr lg \<and> length lg = length fh \<and> (\<forall>r\<in>set lg. length r = 2)"
proof -
  have cfg: "in_features (dense1 m) = 2 * lstm_hidden_size m" "out_features (dense1 m) = 64"
    "in_features (dense2 m) = 64" "out_features (dense2 m) = 2"
    using assms(1) by (simp_all add: arch_def)
  have s1: "\<exists>y. linear_sample (dense1 m) v = Inr y \<and> length y = 64" if "v \<in> set fh" for v
    using that assms(2) cfg linear_sample_shape[of v "dense1 m"] by auto
  from map_err_ex[of fh "linear_sample (dense1 m)" "\<lambda>y. length y = 64", OF s1]
  obtain x where x: "map_err (linear_sample (dense1 m)) fh = Inr x" "length x = length fh"
    "\<forall>y\<in>set x. length y = 64" by auto
  let ?x = "dropout_mat (dropout m) (dropout_training m) (head_keep nz) (map (map relu) x)"
  have xs: "length ?x = length fh" "\<forall>r\<in>set ?x. length r = 64"
    using x dropout_mat_shape(2)[of _ "dropout m" "dropout_training m" "head_keep nz" "map (map relu) x" 64]
    by (auto simp: dropout_mat_shape(1))
  have s2: "\<exists>y. linear_sample (dense2 m) v = Inr y \<and> length y = 2" if "v \<in> set ?x" for v
    using that xs(2) cfg linear_sample_shape[of v "dense2 m"] by auto
  from map_err_ex[of ?x "linear_sample (dense2 m)" "\<lambda>y. length y = 2", OF s2]
  obtain lg where "map_err (linear_sample (dense2 m)) ?x = Inr lg" "length lg = length ?x"
    "\<forall>y\<in>set lg. length y = 2" by auto
  then show ?thesis using x(1) xs(1) by (simp add: classify_def and_then_def)
qed

lemma forward_logits_shape:
  assumes "arch m"
    and "enc (bert m) False (bert_training m) (enc_seed nz) ids msk = Inr emb"
    and "has_shape L (bert_dim m) emb" and "1 \<le> L"
  shows "\<exists>lg. snd (forward_logits enc m nz ids msk) = Inr lg \<and> length lg = length emb \<and>
           (\<forall>r\<in>set lg. length r = 2)"
proof -
  from cnn_features_shape[OF assms(1,4,3)]
  obtain f where f: "cnn_features m emb = Inr f" "length f = length emb"
    "has_shape L (cnn_out_channels m) f" by auto
  from aggregate_shape[OF assms(1,4) f(3)]
  obtain fh where fh: "aggregate m nz f = Inr fh" "length fh = length f"
    "\<forall>v\<in>set fh. length v = 2 * lstm_hidden_size m" by auto
  from classify_shape[OF assms(1) fh(3)]
  obtain lg where lg: "classify m nz fh = Inr lg" "length lg = length fh" "\<forall>r\<in>set lg. length r = 2"
    by auto
  have "snd (forward_logits enc m nz ids msk) = Inr lg"
    by (simp add: forward_logits_def assms(2) f(1) fh(1) lg(1) and_then_def)
  with lg f fh show ?thesis by simp
qed

lemma forward_unfold:
  "forward enc m nz ids msk =
     (fst (forward_logits enc m nz ids msk),
      and_then (snd (forward_logits enc m nz ids msk)) (\<lambda>lg. Inr (map softmax lg)))"
  by (simp add: forward_def split: prod.splits)

subsection \<open>One step of the loop\<close>

lemma fst_forward: "fst (forward enc m nz ids msk) = [EncoderCall False (bert_training m)]"
  by (simp add: forward_unfold forward_logits_def)

lemma arch_zero_grad: "arch (zero_grad m) = arch m"
  by (simp add: arch_def zero_grad_def)

lemma arch_train: "arch (train m) = arch m"
  by (simp add: arch_def train_def)

lemma arch_backward: "arch (backward ag evs nz b m) = arch m"
  by (simp add: arch_def backward_def)

lemma arch_load_head: "arch (load_head hp m) = arch m"
  by (cases hp) (auto simp add: arch_def load_head_def)

lemma arch_bert_update: "arch (m\<lparr>bert := w\<rparr>) = arch m"
  by (simp add: arch_def)

lemma arch_opt_step: "arch (fst (opt_step opt m)) = arch m"
  by (cases "bert_grad m"; cases "head_grad m")
     (simp_all add: opt_step_def Let_def arch_load_head arch_bert_update)

lemma bert_load_head: "bert (load_head hp m) = bert m" "bert_training (load_head hp m) = bert_training m"
  by (cases hp; auto simp add: load_head_def)+

lemma not_attached: "encoder_attached [EncoderCall False t] = False"
  by (simp add: encoder_attached_def)

lemma after_step_frame:
  "bert (fst (after_step ag nz b opt m)) = bert m"
  "bert_training (fst (after_step ag nz b opt m)) = bert_training m"
  "arch (fst (after_step ag nz b opt m)) = arch m"
proof -
  let ?m = "backward ag [EncoderCall False (bert_training m)] nz b (zero_grad m)"
  have g: "bert_grad ?m = None" "bert ?m = bert m" "bert_training ?m = bert_training m"
    by (simp_all add: backward_def zero_grad_def not_attached)
  show "bert (fst (after_step ag nz b opt m)) = bert m"
    using g by (simp add: after_step_def opt_step_def Let_def bert_load_head split: option.splits)
  show "bert_training (fst (after_step ag nz b opt m)) = bert_training m"
    using g by (simp add: after_step_def opt_step_def Let_def bert_load_head split: option.splits)
  show "arch (fst (after_step ag nz b opt m)) = arch m"
    by (simp add: after_step_def arch_opt_step arch_backward arch_zero_grad)
qed

lemma train_step_cases:
  "train_step enc ag crit nz (m, opt) b =
     (case and_then (snd (forward enc (zero_grad m) nz (input_ids b) (attention_mask b)))
             (\<lambda>outputs. crit outputs (labels b)) of
        Inl e \<Rightarrow> ([ZeroGrad, ForwardCall, EncoderCall False (bert_training m)], Inl e)
      | Inr loss \<Rightarrow>
          ([ZeroGrad, ForwardCall, EncoderCall False (bert_training m), LossComputed loss,
            Backward, OptimizerStep],
           Inr (after_step ag nz b opt m, loss)))"
proof -
  obtain evs r where f: "forward enc (zero_grad m) nz (input_ids b) (attention_mask b) = (evs, r)"
    by (cases "forward enc (zero_grad m) nz (input_ids b) (attention_mask b)") auto
  from fst_forward[of enc "zero_grad m" nz "input_ids b" "attention_mask b"] f
  have evs: "evs = [EncoderCall False (bert_training m)]" by (simp add: zero_grad_def)
  show ?thesis
    unfolding train_step_def after_step_def
    by (simp add: Let_def f evs and_then_def split: sum.splits)
qed

subsection \<open>The criterion on probabilities\<close>




subsection \<open>The loop and the epoch\<close>

text \<open>
  Every run of the loop, failed or not: completed batches contribute the six events of a step
  each, a failing batch its first three; on return the accumulated loss is the sum of the
  recorded losses and the encoder's weights are the ones the loop started with.
\<close>

lemma train_loop_shape:
  assumes "bert_training m"
  shows "\<exists>ls tl. fst (train_loop enc ag crit rng i (m, opt) tot bs)
             = concat (map expected_step_events ls) @ tl \<and>
           (case snd (train_loop enc ag crit rng i (m, opt) tot bs) of
              Inl e \<Rightarrow> tl = [ZeroGrad, ForwardCall, EncoderCall False True] \<and> length ls < length bs
            | Inr res \<Rightarrow> tl = [] \<and> length ls = length bs \<and> snd res = tot + sum_list ls \<and>
                bert (fst (fst res)) = bert m)"
  using assms
proof (induction bs arbitrary: i m opt tot)
  case Nil
  show ?case by (rule exI[of _ "[]"], rule exI[of _ "[]"]) simp
next
  case (Cons b bs)
  let ?r = "and_then (snd (forward enc (zero_grad m) (rng i) (input_ids b) (attention_mask b)))
             (\<lambda>outputs. crit outputs (labels b))"
  show ?case
  proof (cases ?r)
    case (Inl e)
    then have "train_loop enc ag crit rng i (m, opt) tot (b # bs)
        = ([ZeroGrad, ForwardCall, EncoderCall False True], Inl e)"
      using Cons.prems by (simp add: train_step_cases)
    then show ?thesis by (intro exI[of _ "[]"] exI[of _ "[ZeroGrad, ForwardCall, EncoderCall False True]"]) simp
  next
    case (Inr loss)
    obtain m' opt' where st: "after_step ag (rng i) b opt m = (m', opt')"
      by (cases "after_step ag (rng i) b opt m") auto
    from after_step_frame(1,2)[of ag "rng i" b opt m] st Cons.prems
    have fr: "bert m' = bert m" "bert_training m'" by auto
    let ?rest = "train_loop enc ag crit rng (Suc i) (m', opt') (tot + loss) bs"
    from Cons.IH[OF fr(2), of "Suc i" opt' "tot + loss"]
    obtain ls tl where ih: "fst ?rest = concat (map expected_step_events ls) @ tl"
      "case snd ?rest of
          Inl e \<Rightarrow> tl = [ZeroGrad, ForwardCall, EncoderCall False True] \<and> length ls < length bs
        | Inr res \<Rightarrow> tl = [] \<and> length ls = length bs \<and> snd res = tot + loss + sum_list ls \<and>
            bert (fst (fst res)) = bert m'" by blast
    have eq: "train_loop enc ag crit rng i (m, opt) tot (b # bs)
        = (expected_step_events loss @ fst ?rest, snd ?rest)"
      using Cons.prems Inr st
      by (simp add: train_step_cases expected_step_events_def split: prod.splits)
    show ?thesis
      using ih fr(1)
      by (intro exI[of _ "loss # ls"] exI[of _ tl]) (simp only: eq, auto split: sum.splits)
  qed
qed


lemma train_epoch_unfold:
  "train_epoch enc ag rng model loader opt crit =
     (SetTrainMode # fst (train_loop enc ag crit rng 0 (train model, opt) 0 loader),
      and_then (snd (train_loop enc ag crit rng 0 (train model, opt) 0 loader))
        (\<lambda>res. if length loader = 0 then Inl ZeroDivisionError
               else Inr (fst res, snd res / real (length loader))))"
  by (simp add: train_epoch_def Let_def case_prod_unfold)


lemma train_epoch_shape:
  "\<exists>ls tl. fst (train_epoch enc ag rng model loader opt crit)
       = SetTrainMode # concat (map expected_step_events ls) @ tl \<and>
     (case snd (train_epoch enc ag rng model loader opt crit) of
        Inl e \<Rightarrow> (tl = [ZeroGrad, ForwardCall, EncoderCall False True] \<and> length ls < length loader)
                 \<or> (tl = [] \<and> ls = [] \<and> loader = [] \<and> e = ZeroDivisionError)
      | Inr res \<Rightarrow> tl = [] \<and> length ls = length loader \<and> loader \<noteq> [] \<and>
          snd res = sum_list ls / real (length loader) \<and> bert (fst (fst res)) = bert model)"
proof -
  have t: "bert_training (train model)" "bert (train model) = bert model"
    by (simp_all add: train_def)
  let ?r = "train_loop enc ag crit rng 0 (train model, opt) 0 loader"
  from train_loop_shape[OF t(1), of enc ag crit rng 0 opt 0 loader]
  obtain ls tl where l: "fst ?r = concat (map expected_step_events ls) @ tl"
    "case snd ?r of
       Inl e \<Rightarrow> tl = [ZeroGrad, ForwardCall, EncoderCall False True] \<and> length ls < length loader
     | Inr res \<Rightarrow> tl = [] \<and> length ls = length loader \<and> snd res = 0 + sum_list ls \<and>
         bert (fst (fst res)) = bert (train model)" by blast
  show ?thesis
    using l t(2)
    by (intro exI[of _ ls] exI[of _ tl])
       (auto simp: train_epoch_unfold and_then_def split: sum.splits)
qed

text \<open>
  The encoder's weights after a returning epoch are the ones before it, whatever the
  \<open>freeze_bert\<close> flag: the encoder call tracks no gradients, so the encoder's parameters
  never receive one, and the optimizer skips parameters without a gradient.
\<close>

lemma train_epoch_keeps_encoder:
  assumes "snd (train_epoch enc ag rng model train_loader optimizer criterion) = Inr ((m', opt'), v)"
  shows "bert m' = bert model"
  using train_epoch_shape[of enc ag rng model train_loader optimizer criterion] assms
  by auto

subsection \<open>The last position of the recurrent output\<close>

lemma lstm_scan_hd:
  "lstm_scan n hs d st (x # xs) ! 0 = lstm_cell n hs d st x"
  by (simp add: Let_def)

lemma bilstm_layer_last:
  assumes "xs \<noteq> []"
  shows "last (fst (bilstm_layer n hs fw bw xs))
           = fst (last (lstm_scan n hs fw (zero_state hs) xs))
             @ fst (lstm_cell n hs bw (zero_state hs) (last xs))"
    and "fst (snd (bilstm_layer n hs fw bw xs)) = last (lstm_scan n hs fw (zero_state hs) xs)"
    and "snd (snd (bilstm_layer n hs fw bw xs)) = last (lstm_scan n hs bw (zero_state hs) (rev xs))"
    and "fst (bilstm_layer n hs fw bw xs) \<noteq> []"
proof -
  let ?f = "lstm_scan n hs fw (zero_state hs) xs"
  let ?s = "lstm_scan n hs bw (zero_state hs) (rev xs)"
  let ?L = "length xs"
  from assms have L: "0 < ?L" by simp
  have lf: "length ?f = ?L" and ls: "length ?s = ?L" by (simp_all add: length_lstm_scan)
  from L lf ls have fne: "?f \<noteq> []" and sne: "?s \<noteq> []" by auto
  obtain y ys where r: "rev xs = y # ys" using assms by (cases "rev xs") auto
  then have y: "y = last xs" using assms by (metis last_rev list.sel(1) rev_rev_ident hd_rev)
  have s0: "?s ! 0 = lstm_cell n hs bw (zero_state hs) (last xs)"
    by (simp add: r lstm_scan_hd y[symmetric] del: lstm_scan.simps)
  have "[0..<?L] \<noteq> []" using L by simp
  then have "last (map (\<lambda>t. fst (?f ! t) @ fst (rev ?s ! t)) [0..<?L])
      = fst (?f ! (?L - 1)) @ fst (rev ?s ! (?L - 1))"
    using L by (simp add: last_map)
  moreover have "?f ! (?L - 1) = last ?f" using fne lf by (simp add: last_conv_nth)
  moreover have "rev ?s ! (?L - 1) = ?s ! 0" using L ls by (simp add: rev_nth)
  ultimately show "last (fst (bilstm_layer n hs fw bw xs))
           = fst (last ?f) @ fst (lstm_cell n hs bw (zero_state hs) (last xs))"
    by (simp add: bilstm_layer_def Let_def s0)
  show "fst (snd (bilstm_layer n hs fw bw xs)) = last ?f"
    by (simp add: bilstm_layer_def Let_def)
  show "snd (snd (bilstm_layer n hs fw bw xs)) = last ?s"
    using sne by (simp add: bilstm_layer_def Let_def hd_rev)
  show "fst (bilstm_layer n hs fw bw xs) \<noteq> []"
    using L by (simp add: bilstm_layer_def Let_def)
qed

lemma lstm_mid_length: "length (lstm_mid l tr keep xs) = length xs"
  by (simp add: lstm_mid_def dropout_mat_shape(1) bilstm_layer_shape(1))

lemma lstm_sample_struct:
  assumes "xs \<noteq> []" and "\<forall>v\<in>set xs. length v = input_size l"
  shows "\<exists>out h_n c_n. lstm_sample l tr keep xs = Inr (out, h_n, c_n) \<and>
      last_step out = Inr (h_n ! 2 @ fst (lstm_cell (2 * hidden_size l) (hidden_size l) (l1_reverse l)
                                  (zero_state (hidden_size l)) (last (lstm_mid l tr keep xs)))) \<and>
      h_n ! 2 = fst (last (lstm_scan (2 * hidden_size l) (hidden_size l) (l1 l)
                             (zero_state (hidden_size l)) (lstm_mid l tr keep xs))) \<and>
      h_n ! 3 = fst (last (lstm_scan (2 * hidden_size l) (hidden_size l) (l1_reverse l)
                             (zero_state (hidden_size l)) (rev (lstm_mid l tr keep xs))))"
proof -
  let ?hs = "hidden_size l"
  let ?b0 = "bilstm_layer (input_size l) ?hs (l0 l) (l0_reverse l) xs"
  let ?mid = "lstm_mid l tr keep xs"
  let ?b1 = "bilstm_layer (2 * ?hs) ?hs (l1 l) (l1_reverse l) ?mid"
  have midne: "?mid \<noteq> []" using assms(1) lstm_mid_length[of l tr keep xs] by auto
  have eq: "lstm_sample l tr keep xs =
      Inr (fst ?b1, map fst [fst (snd ?b0), snd (snd ?b0), fst (snd ?b1), snd (snd ?b1)],
           map snd [fst (snd ?b0), snd (snd ?b0), fst (snd ?b1), snd (snd ?b1)])"
    using assms by (simp add: lstm_sample_def list_all_iff lstm_mid_def split: prod.splits)
  from bilstm_layer_last[OF midne, of "2 * ?hs" ?hs "l1 l" "l1_reverse l"]
  have b1: "last (fst ?b1) = fst (last (lstm_scan (2 * ?hs) ?hs (l1 l) (zero_state ?hs) ?mid))
             @ fst (lstm_cell (2 * ?hs) ?hs (l1_reverse l) (zero_state ?hs) (last ?mid))"
    "fst (snd ?b1) = last (lstm_scan (2 * ?hs) ?hs (l1 l) (zero_state ?hs) ?mid)"
    "snd (snd ?b1) = last (lstm_scan (2 * ?hs) ?hs (l1_reverse l) (zero_state ?hs) (rev ?mid))"
    "fst ?b1 \<noteq> []" by auto
  have ls: "last_step (fst ?b1) = Inr (last (fst ?b1))"
    using b1(4) by (cases "fst ?b1") (simp_all add: last_step_def)
  show ?thesis
    unfolding eq using b1(1,2,3) ls by simp
qed

subsection \<open>The concrete instance\<close>

lemma construct_demo: "construct (Inr 0) demo_head Map.empty = Inr demo_model"
  by (simp add: construct_def SarcasmDetector_init_def demo_head_def demo_model_def and_then_def)

lemma map_upt_const: "(\<And>k. k < n \<Longrightarrow> f k = v) \<Longrightarrow> map f [0..<n] = replicate n v"
  by (rule nth_equalityI) simp_all

lemma demo_cell:
  "lstm_cell n hs (demo_dir \<beta>) (h, replicate hs cv) x =
     (replicate hs (sigmoid \<beta> * tanh (sigmoid \<beta> * cv + sigmoid \<beta> * tanh \<beta>)),
      replicate hs (sigmoid \<beta> * cv + sigmoid \<beta> * tanh \<beta>))"
proof -
  have c: "map (\<lambda>k. sigmoid \<beta> * replicate hs cv ! k + sigmoid \<beta> * tanh \<beta>) [0..<hs]
      = replicate hs (sigmoid \<beta> * cv + sigmoid \<beta> * tanh \<beta>)"
    by (rule map_upt_const) simp
  have h: "map (\<lambda>k. sigmoid \<beta> * tanh (replicate hs (sigmoid \<beta> * cv + sigmoid \<beta> * tanh \<beta>) ! k)) [0..<hs]
      = replicate hs (sigmoid \<beta> * tanh (sigmoid \<beta> * cv + sigmoid \<beta> * tanh \<beta>))"
    by (rule map_upt_const) simp
  show ?thesis
    by (simp add: lstm_cell_def demo_dir_def Let_def c h)
qed

lemma sigmoid_pos: "0 < sigmoid v"
  by (simp add: sigmoid_def add_pos_pos)

text \<open>
  The reverse direction's hidden value grows from the first step to the second.
\<close>

lemma first_second: "first_h < second_h"
proof -
  have s: "0 < sigmoid 1" by (rule sigmoid_pos)
  have c: "0 < first_c" using s by (simp add: first_c_def)
  have "first_c < sigmoid 1 * first_c + sigmoid 1 * tanh 1"
    using s c by (simp add: first_c_def)
  then have "tanh first_c < tanh (sigmoid 1 * first_c + sigmoid 1 * tanh 1)" by simp
  then show ?thesis using s by (simp add: first_h_def second_h_def)
qed

lemma demo_reverse_first:
  "fst (lstm_cell n 128 (demo_dir 1) (zero_state 128) x) = replicate 128 first_h"
  by (simp add: zero_state_def demo_cell first_h_def first_c_def)

lemma demo_reverse_final:
  "fst (last (lstm_scan n 128 (demo_dir 1) (zero_state 128) [a, b])) = replicate 128 second_h"
  by (simp add: zero_state_def demo_cell Let_def second_h_def first_c_def)

lemma demo_forward_final:
  "fst (last (lstm_scan n 128 (demo_dir 0) (zero_state 128) [a, b])) = replicate 128 0"
  by (simp add: zero_state_def demo_cell Let_def)

text \<open>
  The value passed on by lines 61 and 62, per sample, with the final reverse state for
  comparison.
\<close>

lemma aggregate_struct:
  assumes "has_shape L (input_size (lstm m)) x" and "1 \<le> L"
  shows "\<exists>out st. lstm_apply (lstm m) (lstm_training m) (lstm_keep nz) x = Inr (out, st) \<and>
      length st = length x \<and>
      aggregate m nz x = Inr (map (\<lambda>i. fst (st ! i) ! 2 @
          fst (lstm_cell (2 * hidden_size (lstm m)) (hidden_size (lstm m)) (l1_reverse (lstm m))
                 (zero_state (hidden_size (lstm m)))
                 (last (lstm_mid (lstm m) (lstm_training m) (lstm_keep nz i) (x ! i)))))
        [0..<length x]) \<and>
      (\<forall>i<length x. fst (st ! i) ! 2 =
          fst (last (lstm_scan (2 * hidden_size (lstm m)) (hidden_size (lstm m)) (l1 (lstm m))
                 (zero_state (hidden_size (lstm m)))
                 (lstm_mid (lstm m) (lstm_training m) (lstm_keep nz i) (x ! i))))) \<and>
      (\<forall>i<length x. fst (st ! i) ! 3 =
          fst (last (lstm_scan (2 * hidden_size (lstm m)) (hidden_size (lstm m)) (l1_reverse (lstm m))
                 (zero_state (hidden_size (lstm m)))
                 (rev (lstm_mid (lstm m) (lstm_training m) (lstm_keep nz i) (x ! i))))))"
proof -
  let ?l = "lstm m" let ?tr = "lstm_training m" let ?hs = "hidden_size (lstm m)"
  let ?A = "\<lambda>i. fst (lstm_cell (2 * ?hs) ?hs (l1_reverse ?l) (zero_state ?hs)
                 (last (lstm_mid ?l ?tr (lstm_keep nz i) (x ! i))))"
  let ?B = "\<lambda>i. fst (last (lstm_scan (2 * ?hs) ?hs (l1_reverse ?l) (zero_state ?hs)
                 (rev (lstm_mid ?l ?tr (lstm_keep nz i) (x ! i)))))"
  let ?C = "\<lambda>i. fst (last (lstm_scan (2 * ?hs) ?hs (l1 ?l) (zero_state ?hs)
                 (lstm_mid ?l ?tr (lstm_keep nz i) (x ! i))))"
  let ?f = "\<lambda>i. lstm_sample ?l ?tr (lstm_keep nz i) (x ! i)"
  have ex: "\<forall>i<length x. \<exists>y. ?f i = Inr y \<and>
      last_step (fst y) = Inr (fst (snd y) ! 2 @ ?A i) \<and> fst (snd y) ! 3 = ?B i \<and>
      fst (snd y) ! 2 = ?C i"
  proof (intro allI impI)
    fix i assume "i < length x"
    then have "x ! i \<in> set x" by simp
    with assms have "length (x ! i) = L" "\<forall>v\<in>set (x ! i). length v = input_size ?l"
      by (auto simp: has_shape_iff)
    moreover from this assms(2) have "x ! i \<noteq> []" by auto
    ultimately show "\<exists>y. ?f i = Inr y \<and>
      last_step (fst y) = Inr (fst (snd y) ! 2 @ ?A i) \<and> fst (snd y) ! 3 = ?B i \<and>
      fst (snd y) ! 2 = ?C i"
      using lstm_sample_struct[of "x ! i" ?l ?tr "lstm_keep nz i"] by auto
  qed
  define g where "g i = (case ?f i of Inr y \<Rightarrow> y)" for i
  have g: "?f i = Inr (g i)" "last_step (fst (g i)) = Inr (fst (snd (g i)) ! 2 @ ?A i)"
    "fst (snd (g i)) ! 3 = ?B i" "fst (snd (g i)) ! 2 = ?C i" if "i < length x" for i
    using ex that by (auto simp: g_def)
  have m1: "map_err ?f [0..<length x] = Inr (map g [0..<length x])"
    by (rule map_err_Inr) (simp add: g)
  have la: "lstm_apply ?l ?tr (lstm_keep nz) x
      = Inr (map (\<lambda>i. fst (g i)) [0..<length x], map (\<lambda>i. snd (g i)) [0..<length x])"
    by (simp add: lstm_apply_def m1 and_then_def comp_def)
  have "map_err last_step (map (\<lambda>i. fst (g i)) [0..<length x])
      = Inr (map (\<lambda>o'. case last_step o' of Inr y \<Rightarrow> y) (map (\<lambda>i. fst (g i)) [0..<length x]))"
    by (rule map_err_Inr) (auto simp: g)
  also have "map (\<lambda>o'. case last_step o' of Inr y \<Rightarrow> y) (map (\<lambda>i. fst (g i)) [0..<length x])
      = map (\<lambda>i. fst (snd (g i)) ! 2 @ ?A i) [0..<length x]"
    by (simp add: g)
  finally have m2: "map_err last_step (map (\<lambda>i. fst (g i)) [0..<length x])
      = Inr (map (\<lambda>i. fst (snd (g i)) ! 2 @ ?A i) [0..<length x])" .
  have ag: "aggregate m nz x = Inr (map (\<lambda>i. fst (snd (g i)) ! 2 @ ?A i) [0..<length x])"
    by (simp add: aggregate_def la and_then_def m2)
  show ?thesis
    apply (intro exI[of _ "map (\<lambda>i. fst (g i)) [0..<length x]"]
                 exI[of _ "map (\<lambda>i. snd (g i)) [0..<length x]"])
    using la ag g(3,4) by simp
qed

lemma demo_mid_two:
  "\<exists>a b. lstm_mid (lstm demo_model) tr keep [replicate 256 0, replicate 256 0] = [a, b]"
proof -
  have "length (lstm_mid (lstm demo_model) tr keep [replicate 256 0, replicate 256 0]) = 2"
    by (simp add: lstm_mid_length)
  then show ?thesis
    by (cases "lstm_mid (lstm demo_model) tr keep [replicate 256 0, replicate 256 0]" rule: list.exhaust)
       (auto simp: length_Suc_conv)
qed

lemma arch_demo: "arch demo_model"
  by (simp add: arch_def demo_model_def)


lemma train_epoch_trace:
  "\<exists>ls tl. fst (train_epoch enc ag rng model train_loader optimizer criterion)
       = SetTrainMode # concat (map expected_step_events ls) @ tl \<and>
     (tl = [] \<or> tl = [ZeroGrad, ForwardCall, EncoderCall False True])"
proof -
  from train_epoch_shape[of enc ag rng model train_loader optimizer criterion]
  obtain ls tl where s:
    "fst (train_epoch enc ag rng model train_loader optimizer criterion)
       = SetTrainMode # concat (map expected_step_events ls) @ tl"
    "case snd (train_epoch enc ag rng model train_loader optimizer criterion) of
        Inl e \<Rightarrow> (tl = [ZeroGrad, ForwardCall, EncoderCall False True] \<and> length ls < length train_loader)
                 \<or> (tl = [] \<and> ls = [] \<and> train_loader = [] \<and> e = ZeroDivisionError)
      | Inr res \<Rightarrow> tl = [] \<and> length ls = length train_loader \<and> train_loader \<noteq> [] \<and>
          snd res = sum_list ls / real (length train_loader) \<and> bert (fst (fst res)) = bert model"
    by blast
  from s(2) have "tl = [] \<or> tl = [ZeroGrad, ForwardCall, EncoderCall False True]"
    by (cases "snd (train_epoch enc ag rng model train_loader optimizer criterion)") auto
  with s(1) show ?thesis by blast
qed

subsection \<open>Errors of construction and of the forward pass\<close>

lemma map_err_InlD: "map_err f xs = Inl e \<Longrightarrow> \<exists>x\<in>set xs. f x = Inl e"
  by (induction xs) (auto split: sum.splits)

lemma conv1d_sample_error: "conv1d_sample cv x = Inl e \<Longrightarrow> e = RuntimeError"
  by (auto simp: conv1d_sample_def Let_def split: if_splits)

lemma lstm_sample_error: "lstm_sample l tr keep xs = Inl e \<Longrightarrow> e = RuntimeError"
  by (auto simp: lstm_sample_def split: if_splits prod.splits)

lemma linear_sample_error: "linear_sample l x = Inl e \<Longrightarrow> e = RuntimeError"
  by (auto simp: linear_sample_def split: if_splits)

lemma last_step_error: "last_step s = Inl e \<Longrightarrow> e = IndexError"
  by (auto simp: last_step_def split: list.splits)

lemma cnn_features_error: "cnn_features m emb = Inl e \<Longrightarrow> e = RuntimeError"
  by (auto simp: cnn_features_def and_then_def Let_def split: sum.splits
           dest!: map_err_InlD dest: conv1d_sample_error)

lemma aggregate_error: "aggregate m nz x = Inl e \<Longrightarrow> e = RuntimeError \<or> e = IndexError"
  by (auto simp: aggregate_def lstm_apply_def and_then_def Let_def split: sum.splits
           dest!: map_err_InlD dest: lstm_sample_error last_step_error)

lemma classify_error: "classify m nz fh = Inl e \<Longrightarrow> e = RuntimeError"
  by (auto simp: classify_def and_then_def Let_def split: sum.splits
           dest!: map_err_InlD dest: linear_sample_error)

text \<open>
  What the forward pass can raise: a shape error, an index error, or the encoder's error.
\<close>

lemma forward_error:
  assumes "snd (forward enc m nz ids msk) = Inl e"
  shows "e = RuntimeError \<or> e = IndexError \<or>
         enc (bert m) False (bert_training m) (enc_seed nz) ids msk = Inl e"
proof -
  from assms have l: "snd (forward_logits enc m nz ids msk) = Inl e"
    by (auto simp: forward_unfold and_then_def split: sum.splits)
  show ?thesis
  proof (cases "enc (bert m) False (bert_training m) (enc_seed nz) ids msk")
    case (Inl e')
    with l show ?thesis by (simp add: forward_logits_def and_then_def)
  next
    case (Inr emb)
    with l show ?thesis
      by (auto simp: forward_logits_def and_then_def split: sum.splits
               dest: cnn_features_error aggregate_error classify_error)
  qed
qed

lemma init_cases:
  "SarcasmDetector_init pretrained init dr fb = Inr m \<Longrightarrow>
     \<exists>w. pretrained = Inr w \<and> dropout_number dr = Inr (dropout m) \<and>
         lstm_dropout (lstm m) = dropout m"
  unfolding SarcasmDetector_init_def case_prod_unfold and_then_def Let_def
  by (cases pretrained; cases "dropout_number dr") auto

lemma dropout_number_range: "dropout_number v = Inr r \<Longrightarrow> 0 \<le> r \<and> r \<le> 1"
  by (cases v) (auto split: if_splits)

lemma init_float_bad:
  "r < 0 \<or> 1 < r \<Longrightarrow> SarcasmDetector_init (Inr w) init (PyFloat r) fb = Inl ValueError"
  unfolding SarcasmDetector_init_def case_prod_unfold and_then_def Let_def
  by auto

lemma init_float_ok:
  "0 \<le> r \<Longrightarrow> r \<le> 1 \<Longrightarrow>
     \<exists>m. SarcasmDetector_init (Inr w) init (PyFloat r) fb = Inr m \<and> dropout m = r"
  unfolding SarcasmDetector_init_def case_prod_unfold and_then_def Let_def
  by simp

lemma init_arch: "SarcasmDetector_init pretrained init dr fb = Inr m \<Longrightarrow> arch m"
  unfolding SarcasmDetector_init_def case_prod_unfold and_then_def Let_def
  by (cases pretrained; cases "dropout_number dr") (auto simp: arch_def)

text \<open>
  A constructed model has the layer dimensions of \<open>arch\<close>.
\<close>

lemma construct_arch: "construct pretrained init options = Inr m \<Longrightarrow> arch m"
  by (auto simp: construct_def split: if_splits dest: init_arch)

subsection \<open>The instance, evaluated\<close>

lemma ncols_replicate: "0 < n \<Longrightarrow> ncols (replicate n r) = length r"
  by (cases n) (simp_all add: ncols_def)

lemma demo_conv:
  assumes "length x = 768" and "ncols x = 2"
  shows "conv1d_sample (conv1d demo_model) x = Inr (replicate 256 (replicate 2 0))"
proof -
  have "map (\<lambda>oc. map (\<lambda>t. (0::real)) [0..<2]) [0..<256] = replicate 256 (replicate 2 0)"
    by (simp add: map_replicate_const)
  then show ?thesis
    using assms
    by (simp add: conv1d_sample_def demo_model_def Let_def map_replicate_const sum_list_replicate
        numeral_2_eq_2)
qed

lemma transpose_zero:
  "0 < r \<Longrightarrow> transpose_mat (replicate r (replicate c (0::real))) = replicate c (replicate r 0)"
  by (simp add: transpose_mat_def ncols_replicate map_replicate_const map_upt_const)

lemma demo_cnn_features: "cnn_features demo_model demo_embeddings = Inr demo_features"
proof -
  have t: "transpose_mat [replicate 768 (0::real), replicate 768 0] = replicate 768 [0, 0]"
    using transpose_zero[of 2 768] by (simp add: numeral_2_eq_2)
  have c: "conv1d_sample (conv1d demo_model) (replicate 768 [0, 0])
      = Inr (replicate 256 (replicate 2 0))"
    by (rule demo_conv) (simp_all add: ncols_replicate)
  have r: "transpose_mat (replicate 256 (replicate 2 (0::real))) = [replicate 256 0, replicate 256 0]"
    using transpose_zero[of 256 2] by (simp add: numeral_2_eq_2)
  show ?thesis
    by (simp add: cnn_features_def permute_021_def demo_embeddings_def demo_features_def t c
        and_then_def relu_def r)
qed

lemma demo_linear1:
  "length v = 256 \<Longrightarrow> linear_sample \<lparr>in_features = 256, out_features = 64,
      lin_weight = (\<lambda>_ _. 0), lin_bias = (\<lambda>_. 0)\<rparr> v = Inr (replicate 64 0)"
  by (simp add: linear_sample_def map_replicate_const sum_list_replicate)

lemma demo_linear2:
  "length v = 64 \<Longrightarrow> linear_sample \<lparr>in_features = 64, out_features = 2,
      lin_weight = (\<lambda>_ _. 0), lin_bias = (\<lambda>_. 0)\<rparr> v = Inr [0, 0]"
  by (simp add: linear_sample_def map_replicate_const sum_list_replicate numeral_2_eq_2)

lemma dropout_vec_zero: "dropout_vec p tr keep (replicate n 0) = replicate n 0"
proof -
  have "map (\<lambda>k. if keep k then replicate n (0::real) ! k / (1 - p) else 0) [0..<n] = replicate n 0"
    by (rule map_upt_const) simp
  then show ?thesis by (simp add: dropout_vec_def map_replicate_const)
qed

lemma dropout_mat_zero:
  "dropout_mat p tr keep (replicate b (replicate n 0)) = replicate b (replicate n 0)"
proof -
  have "map (\<lambda>i. dropout_vec p tr (keep i) (replicate b (replicate n 0) ! i)) [0..<b]
      = replicate b (replicate n 0)"
    by (rule map_upt_const) (simp add: dropout_vec_zero)
  then show ?thesis by (simp add: dropout_mat_def)
qed

lemma classify_demo:
  assumes "dense1 m = dense1 demo_model" and "dense2 m = dense2 demo_model"
    and "\<forall>v\<in>set fh. length v = 256"
  shows "classify m nz fh = Inr (replicate (length fh) [0, 0])"
proof -
  have d: "dense1 m = \<lparr>in_features = 256, out_features = 64,
      lin_weight = (\<lambda>_ _. 0), lin_bias = (\<lambda>_. 0)\<rparr>"
    "dense2 m = \<lparr>in_features = 64, out_features = 2,
      lin_weight = (\<lambda>_ _. 0), lin_bias = (\<lambda>_. 0)\<rparr>"
    using assms(1,2) by (simp_all add: demo_model_def)
  have 1: "map_err (linear_sample (dense1 m)) fh = Inr (map (\<lambda>_. replicate 64 0) fh)"
    by (rule map_err_Inr) (use assms(3) in \<open>simp add: d demo_linear1\<close>)
  have 2: "dropout_mat (dropout m) (dropout_training m) (head_keep nz)
             (map (map relu) (map (\<lambda>_. replicate 64 0) fh))
      = replicate (length fh) (replicate 64 0)"
    by (simp add: map_replicate_const relu_def dropout_mat_zero)
  have 3: "map_err (linear_sample (dense2 m)) (replicate (length fh) (replicate 64 0))
      = Inr (map (\<lambda>_. [0, 0]) (replicate (length fh) (replicate 64 (0::real))))"
    by (rule map_err_Inr) (simp add: d demo_linear2)
  show ?thesis
    by (simp add: classify_def 1 and_then_def Let_def 3 map_replicate_const relu_def
        dropout_mat_zero)
qed

lemma demo_forward_logits:
  assumes "arch m" and "dense1 m = dense1 demo_model" and "dense2 m = dense2 demo_model"
  shows "snd (forward_logits demo_encoder m nz (input_ids demo_batch) (attention_mask demo_batch))
           = Inr [[0, 0]]"
proof -
  have e: "demo_encoder (bert m) False (bert_training m) (enc_seed nz) (input_ids demo_batch)
      (attention_mask demo_batch) = Inr demo_embeddings"
    by (simp add: demo_encoder_def demo_batch_def demo_embeddings_def)
  have sh: "has_shape 2 (bert_dim m) demo_embeddings"
    using assms(1) by (simp add: has_shape_def demo_embeddings_def arch_def)
  from cnn_features_shape[OF assms(1) _ sh]
  obtain f where f: "cnn_features m demo_embeddings = Inr f" "length f = 1"
    "has_shape 2 (cnn_out_channels m) f" by (auto simp: demo_embeddings_def)
  from aggregate_shape[OF assms(1) _ f(3), of nz]
  obtain fh where fh: "aggregate m nz f = Inr fh" "length fh = 1"
    "\<forall>v\<in>set fh. length v = 2 * lstm_hidden_size m" using f(2) by auto
  from fh(3) assms(1) have "\<forall>v\<in>set fh. length v = 256" by (simp add: arch_def)
  from classify_demo[OF assms(2,3) this, of nz] fh(2)
  have "classify m nz fh = Inr [[0, 0]]" by simp
  then show ?thesis
    by (simp add: forward_logits_def e f(1) fh(1) and_then_def)
qed

lemma softmax_pair: "softmax [a, a] = [1 / 2, 1 / 2]"
  by (simp add: softmax_def)

lemma demo_loss: "cross_entropy [softmax [0, 0]] (labels demo_batch) = Inr (ln 2)"
  by (simp add: cross_entropy_def demo_batch_def softmax_pair ncols_def ln_div)

lemma demo_train_step:
  assumes "arch m" and "dense1 m = dense1 demo_model" and "dense2 m = dense2 demo_model"
    and "bert_training m"
  shows "train_step demo_encoder ag cross_entropy nz (m, opt) demo_batch
     = (expected_step_events (ln 2), Inr (after_step ag nz demo_batch opt m, ln 2))"
proof -
  have z: "arch (zero_grad m)" "dense1 (zero_grad m) = dense1 demo_model"
    "dense2 (zero_grad m) = dense2 demo_model"
    using assms(1-3) by (simp_all add: arch_zero_grad) (simp_all add: zero_grad_def)
  from demo_forward_logits[OF z, of nz]
  have "snd (forward demo_encoder (zero_grad m) nz (input_ids demo_batch) (attention_mask demo_batch))
      = Inr (map softmax [[0, 0]])"
    by (simp add: forward_unfold and_then_def)
  then show ?thesis
    using assms(4) by (simp add: train_step_cases and_then_def demo_loss expected_step_events_def)
qed

lemma demo_epoch:
  "train_epoch demo_encoder demo_autograd (\<lambda>_. demo_noise) demo_model [demo_batch]
     demo_optimizer cross_entropy
   = ([SetTrainMode, ZeroGrad, ForwardCall, EncoderCall False True, LossComputed (ln 2), Backward,
       OptimizerStep],
      Inr (after_step demo_autograd demo_noise demo_batch demo_optimizer (train demo_model), ln 2))"
proof -
  have t: "arch (train demo_model)" "dense1 (train demo_model) = dense1 demo_model"
    "dense2 (train demo_model) = dense2 demo_model" "bert_training (train demo_model)"
    using arch_demo by (simp_all add: arch_train) (simp_all add: train_def)
  show ?thesis
    by (simp add: train_epoch_unfold demo_train_step[OF t] and_then_def expected_step_events_def)
qed

subsection \<open>The state through the loop\<close>

lemma spec_step_after: "spec_step enc ag nz b (m, opt) = after_step ag nz b opt m"
  by (simp add: spec_step_def after_step_def fst_forward Let_def) (simp add: zero_grad_def)

lemma head_of_load_head: "head_of (load_head hp m) = hp"
  unfolding load_head_def head_of_def case_prod_unfold by simp

text \<open>
  What one \\<open>spec_step\\<close> does to the state, in terms of the gradient and update rules.
\<close>

lemma spec_step_effect:
  "head_grad (fst (spec_step enc ag nz b st))
     = Some (grad_head ag None (zero_grad (fst st)) nz b) \<and>
   head_of (fst (spec_step enc ag nz b st))
     = update_head (snd st) (opt_state (snd st)) (head_of (fst st))
         (grad_head ag None (zero_grad (fst st)) nz b) \<and>
   opt_state (snd (spec_step enc ag nz b st))
     = advance (snd st) (opt_state (snd st)) None
         (Some (grad_head ag None (zero_grad (fst st)) nz b)) \<and>
   bert (fst (spec_step enc ag nz b st)) = bert (fst st)"
proof -
  let ?c = "zero_grad (fst st)"
  let ?p = "backward ag (fst (forward enc ?c nz (input_ids b) (attention_mask b))) nz b ?c"
  have p: "bert_grad ?p = None" "head_grad ?p = Some (grad_head ag None ?c nz b)"
    "head_of ?p = head_of (fst st)" "bert ?p = bert (fst st)"
    by (simp_all add: backward_def fst_forward not_attached head_of_def)
       (simp_all add: zero_grad_def)
  have s: "spec_step enc ag nz b st = opt_step (snd st) ?p"
    by (simp add: spec_step_def Let_def)
  have l: "head_grad (load_head hp m) = head_grad m" for hp and m :: "'a SarcasmDetector"
    unfolding load_head_def case_prod_unfold by simp
  show ?thesis
    unfolding s by (simp add: opt_step_def Let_def p head_of_load_head l bert_load_head)
qed

text \<open>
  The loop against the specification's step: the recorded losses are the losses of the states
  that the preceding batches produce, a failing batch is one whose loss fails, and on return
  the state is the iterated step.
\<close>

lemma train_loop_states:
  assumes "bert_training m"
  shows "\<exists>ls tl. fst (train_loop enc ag crit rng i (m, opt) tot bs)
             = concat (map expected_step_events ls) @ tl \<and>
           length ls \<le> length bs \<and>
           (\<forall>k<length ls. spec_loss enc crit (rng (i + k)) (bs ! k)
                             (spec_steps enc ag rng i (m, opt) (take k bs)) = Inr (ls ! k)) \<and>
           (case snd (train_loop enc ag crit rng i (m, opt) tot bs) of
              Inl e \<Rightarrow> tl = [ZeroGrad, ForwardCall, EncoderCall False True] \<and> length ls < length bs \<and>
                spec_loss enc crit (rng (i + length ls)) (bs ! length ls)
                  (spec_steps enc ag rng i (m, opt) (take (length ls) bs)) = Inl e
            | Inr res \<Rightarrow> tl = [] \<and> length ls = length bs \<and>
                fst res = spec_steps enc ag rng i (m, opt) bs)"
  using assms
proof (induction bs arbitrary: i m opt tot)
  case Nil
  show ?case by (rule exI[of _ "[]"], rule exI[of _ "[]"]) simp
next
  case (Cons b bs)
  let ?r = "spec_loss enc crit (rng i) b (m, opt)"
  have r: "?r = and_then (snd (forward enc (zero_grad m) (rng i) (input_ids b) (attention_mask b)))
             (\<lambda>outputs. crit outputs (labels b))"
    by (simp add: spec_loss_def)
  show ?case
  proof (cases ?r)
    case (Inl e)
    then have "train_loop enc ag crit rng i (m, opt) tot (b # bs)
        = ([ZeroGrad, ForwardCall, EncoderCall False True], Inl e)"
      using Cons.prems by (simp add: train_step_cases r)
    then show ?thesis
      using Inl
      by (intro exI[of _ "[]"] exI[of _ "[ZeroGrad, ForwardCall, EncoderCall False True]"]) simp
  next
    case (Inr loss)
    obtain m' opt' where st: "spec_step enc ag (rng i) b (m, opt) = (m', opt')"
      by (cases "spec_step enc ag (rng i) b (m, opt)") auto
    then have as: "after_step ag (rng i) b opt m = (m', opt')" by (simp add: spec_step_after)
    from after_step_frame(2)[of ag "rng i" b opt m] as Cons.prems
    have fr: "bert_training m'" by auto
    let ?rest = "train_loop enc ag crit rng (Suc i) (m', opt') (tot + loss) bs"
    from Cons.IH[OF fr, of "Suc i" opt' "tot + loss"]
    obtain ls tl where ih: "fst ?rest = concat (map expected_step_events ls) @ tl"
      "length ls \<le> length bs"
      "\<forall>k<length ls. spec_loss enc crit (rng (Suc i + k)) (bs ! k)
                        (spec_steps enc ag rng (Suc i) (m', opt') (take k bs)) = Inr (ls ! k)"
      "case snd ?rest of
          Inl e \<Rightarrow> tl = [ZeroGrad, ForwardCall, EncoderCall False True] \<and> length ls < length bs \<and>
            spec_loss enc crit (rng (Suc i + length ls)) (bs ! length ls)
              (spec_steps enc ag rng (Suc i) (m', opt') (take (length ls) bs)) = Inl e
        | Inr res \<Rightarrow> tl = [] \<and> length ls = length bs \<and>
            fst res = spec_steps enc ag rng (Suc i) (m', opt') bs" by blast
    have eq: "train_loop enc ag crit rng i (m, opt) tot (b # bs)
        = (expected_step_events loss @ fst ?rest, snd ?rest)"
      using Cons.prems Inr as
      by (simp add: train_step_cases r expected_step_events_def split: prod.splits)
    have losses: "\<forall>k<length (loss # ls). spec_loss enc crit (rng (i + k)) ((b # bs) ! k)
                        (spec_steps enc ag rng i (m, opt) (take k (b # bs))) = Inr ((loss # ls) ! k)"
    proof (intro allI impI)
      fix k assume k: "k < length (loss # ls)"
      show "spec_loss enc crit (rng (i + k)) ((b # bs) ! k)
              (spec_steps enc ag rng i (m, opt) (take k (b # bs))) = Inr ((loss # ls) ! k)"
      proof (cases k)
        case 0
        then show ?thesis using Inr by simp
      next
        case (Suc j)
        with k have "j < length ls" by simp
        with ih(3) show ?thesis by (simp add: Suc st)
      qed
    qed
    have fin: "case snd ?rest of
          Inl e \<Rightarrow> tl = [ZeroGrad, ForwardCall, EncoderCall False True] \<and>
            length (loss # ls) < length (b # bs) \<and>
            spec_loss enc crit (rng (i + length (loss # ls))) ((b # bs) ! length (loss # ls))
              (spec_steps enc ag rng i (m, opt) (take (length (loss # ls)) (b # bs))) = Inl e
        | Inr res \<Rightarrow> tl = [] \<and> length (loss # ls) = length (b # bs) \<and>
            fst res = spec_steps enc ag rng i (m, opt) (b # bs)"
      using ih(4) by (cases "snd ?rest") (simp_all add: st)
    show ?thesis
      apply (intro exI[of _ "loss # ls"] exI[of _ tl])
      apply (simp only: eq fst_conv snd_conv)
      using ih(1,2) losses fin by simp
  qed
qed

lemma train_epoch_states:
  "\<exists>ls tl. fst (train_epoch enc ag rng model loader opt crit)
       = SetTrainMode # concat (map expected_step_events ls) @ tl \<and>
     length ls \<le> length loader \<and>
     (\<forall>k<length ls. spec_loss enc crit (rng k) (loader ! k)
                       (spec_steps enc ag rng 0 (train model, opt) (take k loader)) = Inr (ls ! k)) \<and>
     (tl = [] \<or> tl = [ZeroGrad, ForwardCall, EncoderCall False True]) \<and>
     (tl \<noteq> [] \<longrightarrow> length ls < length loader \<and>
        isl (spec_loss enc crit (rng (length ls)) (loader ! length ls)
               (spec_steps enc ag rng 0 (train model, opt) (take (length ls) loader)))) \<and>
     (\<not> isl (snd (train_epoch enc ag rng model loader opt crit)) \<longrightarrow>
        tl = [] \<and> length ls = length loader \<and>
        (\<exists>v. snd (train_epoch enc ag rng model loader opt crit)
               = Inr (spec_steps enc ag rng 0 (train model, opt) loader, v)))"
proof -
  have t: "bert_training (train model)" by (simp add: train_def)
  let ?r = "train_loop enc ag crit rng 0 (train model, opt) 0 loader"
  from train_loop_states[OF t, of enc ag crit rng 0 opt 0 loader]
  obtain ls tl where l: "fst ?r = concat (map expected_step_events ls) @ tl"
    "length ls \<le> length loader"
    "\<forall>k<length ls. spec_loss enc crit (rng (0 + k)) (loader ! k)
                       (spec_steps enc ag rng 0 (train model, opt) (take k loader)) = Inr (ls ! k)"
    "case snd ?r of
       Inl e \<Rightarrow> tl = [ZeroGrad, ForwardCall, EncoderCall False True] \<and> length ls < length loader \<and>
         spec_loss enc crit (rng (0 + length ls)) (loader ! length ls)
           (spec_steps enc ag rng 0 (train model, opt) (take (length ls) loader)) = Inl e
     | Inr res \<Rightarrow> tl = [] \<and> length ls = length loader \<and>
         fst res = spec_steps enc ag rng 0 (train model, opt) loader"
    by blast
  show ?thesis
  proof (cases "snd ?r")
    case (Inl e)
    with l show ?thesis
      by (intro exI[of _ ls] exI[of _ tl]) (simp add: train_epoch_unfold and_then_def)
  next
    case (Inr res)
    with l show ?thesis
      by (intro exI[of _ ls] exI[of _ tl]) (auto simp: train_epoch_unfold and_then_def)
  qed
qed

subsection \<open>Claims about the forward pass\<close>

text \<open>
  Claim C1. On every valid input batch (the encoder returns one \<open>L \<times> 768\<close> embedding matrix
  per sample, \<open>L \<ge> 1\<close>) the forward pass returns a result, with as many rows as the batch has
  samples and 2 entries per row; every row sums to 1 and every entry lies between 0 and 1.
  Over the reals the sum is exactly 1.
\<close>

theorem forward_probabilities:
  assumes "arch m"
    and "enc (bert m) False (bert_training m) (enc_seed nz) ids msk = Inr emb"
    and "length emb = length ids"
    and "has_shape L (bert_dim m) emb" and "1 \<le> L"
  shows "\<exists>P. snd (forward enc m nz ids msk) = Inr P \<and> length P = length ids \<and>
           list_all (\<lambda>row. length row = 2 \<and> sum_list row = 1 \<and>
                           list_all (\<lambda>p. 0 \<le> p \<and> p \<le> 1) row) P"
proof -
  from forward_logits_shape[of m enc nz ids msk emb L] assms
  obtain lg where lg: "snd (forward_logits enc m nz ids msk) = Inr lg" "length lg = length emb"
    "\<forall>r\<in>set lg. length r = 2" by auto
  have fw: "snd (forward enc m nz ids msk) = Inr (map softmax lg)"
    using lg(1) by (simp add: forward_unfold and_then_def)
  have "length (softmax r) = 2 \<and> sum_list (softmax r) = 1 \<and>
        list_all (\<lambda>p. 0 \<le> p \<and> p \<le> 1) (softmax r)" if "r \<in> set lg" for r
  proof -
    from that lg(3) have "length r = 2" by simp
    then have "r \<noteq> []" by auto
    then have "sum_list (softmax r) = 1" by (rule softmax_sum)
    moreover have "list_all (\<lambda>p. 0 \<le> p \<and> p \<le> 1) (softmax r)"
      using softmax_range[of _ r] by (auto simp: list_all_iff intro: less_imp_le)
    ultimately show ?thesis using \<open>length r = 2\<close> by (simp add: softmax_length)
  qed
  then have "list_all (\<lambda>row. length row = 2 \<and> sum_list row = 1 \<and>
                           list_all (\<lambda>p. 0 \<le> p \<and> p \<le> 1) row) (map softmax lg)"
    by (simp add: list_all_iff)
  with fw lg(2) assms(3) show ?thesis by simp
qed

text \<open>
  The instance: one sample of two tokens.
\<close>

theorem forward_probabilities_witness:
  "arch demo_model \<and>
   demo_encoder (bert demo_model) False (bert_training demo_model) (enc_seed demo_noise)
     [[101, 102]] [[1, 1]] = Inr demo_embeddings \<and>
   length demo_embeddings = length [[101::int, 102]] \<and>
   has_shape 2 (bert_dim demo_model) demo_embeddings \<and>
   (1::nat) \<le> 2 \<and>
   (\<exists>P. snd (forward demo_encoder demo_model demo_noise [[101, 102]] [[1, 1]]) = Inr P \<and>
        length P = length [[101::int, 102]] \<and>
        list_all (\<lambda>row. length row = 2 \<and> sum_list row = 1 \<and>
                        list_all (\<lambda>p. 0 \<le> p \<and> p \<le> 1) row) P)"
proof -
  have e: "demo_encoder (bert demo_model) False (bert_training demo_model) (enc_seed demo_noise)
     [[101, 102]] [[1, 1]] = Inr demo_embeddings"
    by (simp add: demo_encoder_def demo_embeddings_def)
  have sh: "has_shape 2 (bert_dim demo_model) demo_embeddings"
    by (simp add: has_shape_def demo_model_def demo_embeddings_def)
  have len: "length demo_embeddings = length [[101::int, 102]]"
    by (simp add: demo_embeddings_def)
  show ?thesis
    using arch_demo e sh len
      forward_probabilities[of demo_model demo_encoder demo_noise "[[101, 102]]" "[[1, 1]]"
        demo_embeddings 2]
    by simp
qed

text \<open>
  Claim C5, as stated, fails. On the features that the convolution stage computes for the
  instance's two tokens, the value passed to the classifier head ends in 128 copies of
  \<open>first_h\<close>, the reverse direction's hidden value at the last position, which that direction
  reaches after one step. The concatenation of the two final hidden states ends in 128 copies
  of \<open>second_h\<close>, the reverse direction's value at position 0, after two steps; and
  \<open>first_h < second_h\<close>.
\<close>

theorem aggregate_not_final_states:
  "cnn_features demo_model demo_embeddings = Inr demo_features \<and>
   aggregate demo_model demo_noise demo_features
     = Inr [replicate 128 0 @ replicate 128 first_h] \<and>
   and_then (lstm_apply (lstm demo_model) (lstm_training demo_model) (lstm_keep demo_noise)
               demo_features)
       (\<lambda>r. Inr (map (\<lambda>s. final_states_concat (fst s)) (snd r)))
     = Inr [replicate 128 0 @ replicate 128 second_h] \<and>
   first_h < second_h"
proof -
  have cfg: "input_size (lstm demo_model) = 256" "hidden_size (lstm demo_model) = 128"
    "l1_reverse (lstm demo_model) = demo_dir 1" "l1 (lstm demo_model) = demo_dir 0"
    by (simp_all add: demo_model_def)
  have sh: "has_shape 2 (input_size (lstm demo_model)) demo_features"
    by (simp add: has_shape_def demo_features_def cfg)
  let ?mid = "lstm_mid (lstm demo_model) (lstm_training demo_model) (lstm_keep demo_noise 0)
                [replicate 256 0, replicate 256 0]"
  from aggregate_struct[OF sh, of demo_noise]
  obtain out st where a:
    "lstm_apply (lstm demo_model) (lstm_training demo_model) (lstm_keep demo_noise) demo_features
       = Inr (out, st)"
    "length st = 1"
    "aggregate demo_model demo_noise demo_features = Inr [fst (st ! 0) ! 2 @
        fst (lstm_cell 256 128 (demo_dir 1) (zero_state 128) (last ?mid))]"
    "fst (st ! 0) ! 2 = fst (last (lstm_scan 256 128 (demo_dir 0) (zero_state 128) ?mid))"
    "fst (st ! 0) ! 3 = fst (last (lstm_scan 256 128 (demo_dir 1) (zero_state 128) (rev ?mid)))"
    by (auto simp: cfg demo_features_def)
  from demo_mid_two obtain u v where mid: "?mid = [u, v]" by blast
  from a(2) obtain s where st: "st = [s]" by (cases st) auto
  have f: "fst s ! 2 = replicate 128 0"
    using a(4) unfolding mid st by (simp only: nth_Cons_0 demo_forward_final)
  have b: "fst s ! 3 = replicate 128 second_h"
    using a(5) unfolding mid st by (simp only: rev.simps append.simps nth_Cons_0 demo_reverse_final)
  have l: "aggregate demo_model demo_noise demo_features
      = Inr [replicate 128 0 @ replicate 128 first_h]"
    using a(3) f by (simp add: st demo_reverse_first)
  have r: "and_then (lstm_apply (lstm demo_model) (lstm_training demo_model) (lstm_keep demo_noise)
                 demo_features) (\<lambda>r. Inr (map (\<lambda>s. final_states_concat (fst s)) (snd r)))
      = Inr [replicate 128 0 @ replicate 128 second_h]"
    using f b by (simp add: a(1) and_then_def st final_states_concat_def)
  from demo_cnn_features l r first_second show ?thesis by simp
qed

text \<open>
  Claim C5, amended. For every sample the value passed to the classifier head is the
  recurrent output at the last position: the final hidden state of the top level's forward
  direction (\<open>h_n[-2]\<close>), followed by (appended to, not added to) the hidden state that the top
  level's reverse direction has after its first step, taken from the zero state on the last
  element of the same input sequence.
\<close>

theorem aggregate_is_last_step:
  assumes "has_shape L (input_size (lstm m)) x" and "1 \<le> L"
  shows "\<exists>out st. lstm_apply (lstm m) (lstm_training m) (lstm_keep nz) x = Inr (out, st) \<and>
      length st = length x \<and>
      aggregate m nz x = Inr (map (\<lambda>i. fst (st ! i) ! 2 @
          fst (lstm_cell (2 * hidden_size (lstm m)) (hidden_size (lstm m)) (l1_reverse (lstm m))
                 (zero_state (hidden_size (lstm m)))
                 (last (lstm_mid (lstm m) (lstm_training m) (lstm_keep nz i) (x ! i)))))
        [0..<length x])"
  using aggregate_struct[OF assms, of nz] by blast

text \<open>
  The instance: one sample of two time steps.
\<close>

theorem aggregate_is_last_step_witness:
  "has_shape 2 (input_size (lstm demo_model)) demo_features \<and> (1::nat) \<le> 2 \<and>
   (\<exists>out st. lstm_apply (lstm demo_model) (lstm_training demo_model) (lstm_keep demo_noise)
                demo_features = Inr (out, st) \<and>
      length st = length demo_features \<and>
      aggregate demo_model demo_noise demo_features = Inr (map (\<lambda>i. fst (st ! i) ! 2 @
          fst (lstm_cell (2 * hidden_size (lstm demo_model)) (hidden_size (lstm demo_model))
                 (l1_reverse (lstm demo_model)) (zero_state (hidden_size (lstm demo_model)))
                 (last (lstm_mid (lstm demo_model) (lstm_training demo_model)
                          (lstm_keep demo_noise i) (demo_features ! i)))))
        [0..<length demo_features]))"
proof -
  have sh: "has_shape 2 (input_size (lstm demo_model)) demo_features"
    by (simp add: has_shape_def demo_features_def demo_model_def)
  show ?thesis
    using sh aggregate_is_last_step[of 2 demo_model demo_features demo_noise] by simp
qed

text \<open>
  Claim C6. For every sequence length \<open>L \<ge> 1\<close> the convolution stage (kernel width 3,
  padding 1) with the ReLU returns a feature tensor of the same sequence length \<open>L\<close>, with
  256 channels, for every sample of the batch.
\<close>

theorem conv_stage_preserves_length:
  assumes "arch m" and "1 \<le> L" and "has_shape L (bert_dim m) emb"
  shows "\<exists>f. cnn_features m emb = Inr f \<and> length f = length emb \<and>
           has_shape L (cnn_out_channels m) f"
  using cnn_features_shape[OF assms] .

text \<open>
  The instance: one sample of length 2.
\<close>

theorem conv_stage_preserves_length_witness:
  "arch demo_model \<and> (1::nat) \<le> 2 \<and>
   has_shape 2 (bert_dim demo_model) demo_embeddings \<and>
   (\<exists>f. cnn_features demo_model demo_embeddings = Inr f \<and>
        length f = length demo_embeddings \<and>
        has_shape 2 (cnn_out_channels demo_model) f)"
proof -
  have sh: "has_shape 2 (bert_dim demo_model) demo_embeddings"
    by (simp add: has_shape_def demo_model_def demo_embeddings_def)
  show ?thesis
    using arch_demo sh
      conv_stage_preserves_length[of demo_model 2 demo_embeddings]
    by simp
qed

subsection \<open>Claims about the training loop\<close>

text \<open>
  Claim C2, as stated, fails. The trace of a one-batch epoch of the instance shows the encoder
  called with gradient tracking off but in training mode: \<open>model.train()\<close> switches every submodule to
  training mode, the encoder included, and \<open>torch.no_grad()\<close> does not switch it back. In
  training mode the encoder's dropout is active.
\<close>

theorem encoder_runs_in_training_mode:
  "fst (train_epoch demo_encoder demo_autograd (\<lambda>_. demo_noise) demo_model [demo_batch]
          demo_optimizer cross_entropy)
     = [SetTrainMode, ZeroGrad, ForwardCall, EncoderCall False True, LossComputed (ln 2),
        Backward, OptimizerStep]"
  by (simp add: demo_epoch)

text \<open>
  Claim C2, amended. In every forward pass that \<open>train_epoch\<close> performs, whatever the model's
  \<open>freeze_bert\<close> flag and whatever mode it was in before, the encoder is called with gradient
  tracking disabled and in training mode.
\<close>

theorem encoder_calls_in_train_epoch:
  "\<forall>e\<in>set (fst (train_epoch enc ag rng model train_loader optimizer criterion)).
     \<forall>grad_enabled tr. e = EncoderCall grad_enabled tr \<longrightarrow> \<not> grad_enabled \<and> tr"
proof -
  from train_epoch_trace[of enc ag rng model train_loader optimizer criterion]
  obtain ls tl where s:
    "fst (train_epoch enc ag rng model train_loader optimizer criterion)
       = SetTrainMode # concat (map expected_step_events ls) @ tl"
    "tl = [] \<or> tl = [ZeroGrad, ForwardCall, EncoderCall False True]"
    by blast
  show ?thesis
    unfolding s(1) using s(2) by (auto simp: expected_step_events_def)
qed

text \<open>
  The instance with \<open>bert_requires_grad\<close> set, that is \<open>freeze_bert = False\<close>.
\<close>

theorem encoder_calls_in_train_epoch_witness:
  "EncoderCall False True
     \<in> set (fst (train_epoch demo_encoder demo_autograd (\<lambda>_. demo_noise)
                   (demo_model\<lparr>bert_requires_grad := True\<rparr>) [demo_batch]
                   demo_optimizer cross_entropy)) \<and>
   EncoderCall False False
     \<notin> set (fst (train_epoch demo_encoder demo_autograd (\<lambda>_. demo_noise)
                   (demo_model\<lparr>bert_requires_grad := True\<rparr>) [demo_batch]
                   demo_optimizer cross_entropy)) \<and>
   EncoderCall True True
     \<notin> set (fst (train_epoch demo_encoder demo_autograd (\<lambda>_. demo_noise)
                   (demo_model\<lparr>bert_requires_grad := True\<rparr>) [demo_batch]
                   demo_optimizer cross_entropy)) \<and>
   EncoderCall True False
     \<notin> set (fst (train_epoch demo_encoder demo_autograd (\<lambda>_. demo_noise)
                   (demo_model\<lparr>bert_requires_grad := True\<rparr>) [demo_batch]
                   demo_optimizer cross_entropy))"
proof -
  let ?T = "fst (train_epoch demo_encoder demo_autograd (\<lambda>_. demo_noise)
                   (demo_model\<lparr>bert_requires_grad := True\<rparr>) [demo_batch]
                   demo_optimizer cross_entropy)"
  have pre: "take 4 ?T = [SetTrainMode, ZeroGrad, ForwardCall, EncoderCall False True]"
    by (simp add: train_epoch_unfold train_step_cases train_def split: sum.splits prod.splits)
  have "EncoderCall False True \<in> set (take 4 ?T)"
    unfolding pre by simp
  then have m: "EncoderCall False True \<in> set ?T"
    by (rule in_set_takeD)
  show ?thesis
    using m encoder_calls_in_train_epoch[of demo_encoder demo_autograd "\<lambda>_. demo_noise"
        "demo_model\<lparr>bert_requires_grad := True\<rparr>" "[demo_batch]" demo_optimizer cross_entropy]
    by blast
qed



text \<open>
  Claim C7. In a training step the loss is the criterion applied to the softmax of the logits
  (the output of the forward pass) and the labels of the batch; a failure of the forward pass
  or of the criterion is the step's failure.
\<close>

theorem loss_on_probabilities:
  "map_sum id snd (snd (train_step enc ag criterion nz (model, optimizer) b))
     = and_then (snd (forward_logits enc (zero_grad model) nz (input_ids b) (attention_mask b)))
         (\<lambda>logits. criterion (map softmax logits) (labels b))"
  by (cases "snd (forward_logits enc (zero_grad model) nz (input_ids b) (attention_mask b))")
     (simp_all add: train_step_cases forward_unfold and_then_def split: sum.splits)

text \<open>
  The instance: the logits are \<open>[[0, 0]]\<close>, the probabilities \<open>[[1/2, 1/2]]\<close>, and the
  criterion on the probabilities gives \<open>ln 2\<close>.
\<close>

theorem loss_on_probabilities_witness:
  "map_sum id snd (snd (train_step demo_encoder demo_autograd cross_entropy demo_noise
                          (demo_model, demo_optimizer) demo_batch))
     = Inr (ln 2)"
proof -
  have z: "arch (zero_grad demo_model)" "dense1 (zero_grad demo_model) = dense1 demo_model"
    "dense2 (zero_grad demo_model) = dense2 demo_model"
    using arch_demo by (simp_all add: arch_zero_grad) (simp_all add: zero_grad_def)
  show ?thesis
    using loss_on_probabilities[of demo_encoder demo_autograd cross_entropy demo_noise demo_model
        demo_optimizer demo_batch]
    by (simp add: demo_forward_logits[OF z] and_then_def demo_loss)
qed

text \<open>
  Claim C8. For every run of \<open>train_epoch\<close>: the trace is \<open>model.train()\<close> followed, for each
  completed batch, by the five operations in their order, and a batch on which the forward
  pass or the criterion raises contributes only the gradient clearing and the forward call and
  ends the epoch. The order holds of the state, not only of the trace. The loss recorded for
  batch \<open>k\<close> is the criterion on the forward pass of the state that the first \<open>k\<close> batches
  produce, so the forward pass and the loss come before this batch's update. When the epoch
  returns, the returned model and optimizer are the result of one \<open>spec_step\<close> per batch:
  gradients cleared, then backward, then one optimizer step. In each such step the gradient
  left on the non-encoder tensors is the one backward computes from cleared gradients, the
  update applied is the optimizer's rule on exactly that gradient, and the optimizer's state
  advances once: the step follows the backward pass and is applied once.
\<close>

theorem train_epoch_step_order:
  "(\<exists>losses tl.
     fst (train_epoch enc ag rng model train_loader optimizer criterion)
       = SetTrainMode # concat (map expected_step_events losses) @ tl \<and>
     length losses \<le> length train_loader \<and>
     (\<forall>k<length losses.
        spec_loss enc criterion (rng k) (train_loader ! k)
          (spec_steps enc ag rng 0 (train model, optimizer) (take k train_loader))
        = Inr (losses ! k)) \<and>
     (tl = [] \<or> tl = [ZeroGrad, ForwardCall, EncoderCall False True]) \<and>
     (tl \<noteq> [] \<longrightarrow> length losses < length train_loader \<and>
        isl (spec_loss enc criterion (rng (length losses)) (train_loader ! length losses)
               (spec_steps enc ag rng 0 (train model, optimizer)
                  (take (length losses) train_loader)))) \<and>
     (\<not> isl (snd (train_epoch enc ag rng model train_loader optimizer criterion)) \<longrightarrow>
        tl = [] \<and> length losses = length train_loader \<and>
        (\<exists>v. snd (train_epoch enc ag rng model train_loader optimizer criterion)
               = Inr (spec_steps enc ag rng 0 (train model, optimizer) train_loader, v)))) \<and>
   (\<forall>nz b st.
      head_grad (fst (spec_step enc ag nz b st))
        = Some (grad_head ag None (zero_grad (fst st)) nz b) \<and>
      head_of (fst (spec_step enc ag nz b st))
        = update_head (snd st) (opt_state (snd st)) (head_of (fst st))
            (grad_head ag None (zero_grad (fst st)) nz b) \<and>
      opt_state (snd (spec_step enc ag nz b st))
        = advance (snd st) (opt_state (snd st)) None
            (Some (grad_head ag None (zero_grad (fst st)) nz b)) \<and>
      bert (fst (spec_step enc ag nz b (st :: 'w SarcasmDetector \<times> ('w, 's) optimizer)))
        = bert (fst st))"
  using train_epoch_states[of enc ag rng model train_loader optimizer criterion]
    spec_step_effect[of enc ag]
  by blast

text \<open>
  The instance: a one-batch epoch that returns, with loss \<open>ln 2\<close> computed before the update
  and the state of one \<open>spec_step\<close> after it.
\<close>

theorem train_epoch_step_order_witness:
  "\<not> isl (snd (train_epoch demo_encoder demo_autograd (\<lambda>_. demo_noise) demo_model [demo_batch]
                 demo_optimizer cross_entropy)) \<and>
   spec_loss demo_encoder cross_entropy demo_noise demo_batch (train demo_model, demo_optimizer)
     = Inr (ln 2) \<and>
   (\<exists>v. snd (train_epoch demo_encoder demo_autograd (\<lambda>_. demo_noise) demo_model [demo_batch]
                 demo_optimizer cross_entropy)
          = Inr (spec_step demo_encoder demo_autograd demo_noise demo_batch
                   (train demo_model, demo_optimizer), v)) \<and>
   head_grad (fst (spec_step demo_encoder demo_autograd demo_noise demo_batch
                     (train demo_model, demo_optimizer))) = Some demo_head"
proof -
  let ?T = "train_epoch demo_encoder demo_autograd (\<lambda>_. demo_noise) demo_model [demo_batch]
              demo_optimizer cross_entropy"
  have ok: "\<not> isl (snd ?T)" by (simp add: demo_epoch)
  have tr: "fst ?T = [SetTrainMode, ZeroGrad, ForwardCall, EncoderCall False True,
      LossComputed (ln 2), Backward, OptimizerStep]" by (simp add: demo_epoch)
  from train_epoch_step_order[of demo_encoder demo_autograd "\<lambda>_. demo_noise" demo_model
      "[demo_batch]" demo_optimizer cross_entropy]
  obtain losses tl where s:
    "fst ?T = SetTrainMode # concat (map expected_step_events losses) @ tl"
    "\<forall>k<length losses.
        spec_loss demo_encoder cross_entropy demo_noise ([demo_batch] ! k)
          (spec_steps demo_encoder demo_autograd (\<lambda>_. demo_noise) 0 (train demo_model, demo_optimizer)
             (take k [demo_batch]))
        = Inr (losses ! k)"
    "\<not> isl (snd ?T) \<longrightarrow> tl = [] \<and> length losses = length [demo_batch] \<and>
        (\<exists>v. snd ?T = Inr (spec_steps demo_encoder demo_autograd (\<lambda>_. demo_noise) 0
                             (train demo_model, demo_optimizer) [demo_batch], v))"
    and e: "head_grad (fst (spec_step demo_encoder demo_autograd demo_noise demo_batch
                     (train demo_model, demo_optimizer)))
        = Some (grad_head demo_autograd None (zero_grad (fst (train demo_model, demo_optimizer)))
                  demo_noise demo_batch)"
    by blast
  from s(3) ok have tl: "tl = []" and len: "length losses = 1"
    and st: "\<exists>v. snd ?T = Inr (spec_steps demo_encoder demo_autograd (\<lambda>_. demo_noise) 0
                             (train demo_model, demo_optimizer) [demo_batch], v)" by auto
  from len obtain l where l: "losses = [l]" by (cases losses) auto
  from s(1) tr have "l = ln 2" by (simp add: l tl expected_step_events_def)
  with s(2) l have loss: "spec_loss demo_encoder cross_entropy demo_noise demo_batch
      (train demo_model, demo_optimizer) = Inr (ln 2)" by simp
  from e have g: "head_grad (fst (spec_step demo_encoder demo_autograd demo_noise demo_batch
                     (train demo_model, demo_optimizer))) = Some demo_head"
    by (simp add: demo_autograd_def)
  from ok loss st g show ?thesis by simp
qed

text \<open>
  Claim C10. Called with a loader of zero batches, \<open>train_epoch\<close> returns no number: the loop
  body never runs and the final division of the accumulated loss by the number of batches
  divides by zero, so the call ends in \<open>ZeroDivisionError\<close>. A returned mean therefore
  presupposes at least one batch.
\<close>

theorem train_epoch_empty_loader:
  "train_epoch enc ag rng model [] optimizer criterion = ([SetTrainMode], Inl ZeroDivisionError)"
  by (simp add: train_epoch_def and_then_def)

subsection \<open>Claims about construction\<close>

text \<open>
  Claim C9, as stated, fails. The rate 1 lies outside the half-open interval from 0 to 1, and
  construction accepts it: the layers that check the rate accept the closed interval.
\<close>

theorem construct_accepts_rate_one:
  "construct (Inr 0) demo_head [''dropout_rate'' \<mapsto> PyFloat 1]
     = Inr (demo_model\<lparr>lstm := (lstm demo_model)\<lparr>lstm_dropout := 1\<rparr>, dropout := 1\<rparr>)"
  by (simp add: construct_def SarcasmDetector_init_def demo_head_def demo_model_def and_then_def)

text \<open>
  Claim C9, amended. An option that \<open>__init__\<close> does not declare makes construction fail with
  \<open>TypeError\<close>. With declared options and a loaded encoder, a float rate below 0 or above 1
  makes construction fail with \<open>ValueError\<close>, and a rate from 0 to 1, both included, is
  accepted. A constructed model has one rate between 0 and 1 in both dropout sites, and its
  forward pass raises nothing but shape and index errors and what the encoder raises.
\<close>

theorem configuration_errors_at_construction:
  "(\<not> dom options \<subseteq> {''dropout_rate'', ''freeze_bert''} \<longrightarrow>
      construct pretrained init options = Inl TypeError) \<and>
   (dom options \<subseteq> {''dropout_rate'', ''freeze_bert''} \<and>
    options ''dropout_rate'' = Some (PyFloat r) \<and> pretrained = Inr w \<longrightarrow>
      (r < 0 \<or> 1 < r \<longrightarrow> construct pretrained init options = Inl ValueError) \<and>
      (0 \<le> r \<and> r \<le> 1 \<longrightarrow> (\<exists>m. construct pretrained init options = Inr m \<and> dropout m = r))) \<and>
   (construct pretrained init options = Inr m \<longrightarrow>
      0 \<le> dropout m \<and> dropout m \<le> 1 \<and> lstm_dropout (lstm m) = dropout m \<and>
      (\<forall>enc nz ids msk e. snd (forward enc m nz ids msk) = Inl e \<longrightarrow>
         e = RuntimeError \<or> e = IndexError \<or>
         enc (bert m) False (bert_training m) (enc_seed nz) ids msk = Inl e))"
proof (intro conjI impI)
  assume "\<not> dom options \<subseteq> {''dropout_rate'', ''freeze_bert''}"
  then show "construct pretrained init options = Inl TypeError"
    by (simp add: construct_def)
next
  assume a: "dom options \<subseteq> {''dropout_rate'', ''freeze_bert''} \<and>
    options ''dropout_rate'' = Some (PyFloat r) \<and> pretrained = Inr w"
  assume "r < 0 \<or> 1 < r"
  then show "construct pretrained init options = Inl ValueError"
    using a init_float_bad[of r w init] by (auto simp: construct_def)
next
  assume a: "dom options \<subseteq> {''dropout_rate'', ''freeze_bert''} \<and>
    options ''dropout_rate'' = Some (PyFloat r) \<and> pretrained = Inr w"
  assume "0 \<le> r \<and> r \<le> 1"
  then show "\<exists>m. construct pretrained init options = Inr m \<and> dropout m = r"
    using a init_float_ok[of r w init] by (auto simp: construct_def)
next
  assume c: "construct pretrained init options = Inr m"
  then obtain dr fb where i: "SarcasmDetector_init pretrained init dr fb = Inr m"
    by (auto simp: construct_def split: if_splits)
  from init_cases[OF i] dropout_number_range[of dr "dropout m"]
  show "0 \<le> dropout m" "dropout m \<le> 1" "lstm_dropout (lstm m) = dropout m" by auto
  show "\<forall>enc nz ids msk e. snd (forward enc m nz ids msk) = Inl e \<longrightarrow>
         e = RuntimeError \<or> e = IndexError \<or>
         enc (bert m) False (bert_training m) (enc_seed nz) ids msk = Inl e"
    using forward_error by blast
qed

text \<open>
  The instances: an undeclared option, the rate 3/2, and the defaults.
\<close>

theorem configuration_errors_at_construction_witness:
  "\<not> dom [''learning_rate'' \<mapsto> PyFloat (1 / 10)] \<subseteq> {''dropout_rate'', ''freeze_bert''} \<and>
   construct (Inr (0::nat)) demo_head [''learning_rate'' \<mapsto> PyFloat (1 / 10)] = Inl TypeError \<and>
   dom [''dropout_rate'' \<mapsto> PyFloat (3 / 2)] \<subseteq> {''dropout_rate'', ''freeze_bert''} \<and>
   ((3 / 2 :: real) < 0 \<or> 1 < (3 / 2 :: real)) \<and>
   construct (Inr (0::nat)) demo_head [''dropout_rate'' \<mapsto> PyFloat (3 / 2)] = Inl ValueError \<and>
   construct (Inr 0) demo_head Map.empty = Inr demo_model \<and>
   0 \<le> dropout demo_model \<and> dropout demo_model \<le> 1 \<and>
   lstm_dropout (lstm demo_model) = dropout demo_model"
proof -
  have a: "\<not> dom [''learning_rate'' \<mapsto> PyFloat (1 / 10)] \<subseteq> {''dropout_rate'', ''freeze_bert''}"
    by simp
  have b: "dom [''dropout_rate'' \<mapsto> PyFloat (3 / 2)] \<subseteq> {''dropout_rate'', ''freeze_bert''}"
    "[''dropout_rate'' \<mapsto> PyFloat (3 / 2)] ''dropout_rate'' = Some (PyFloat (3 / 2))"
    by simp_all
  from configuration_errors_at_construction[where options = "[''learning_rate'' \<mapsto> PyFloat (1 / 10)]"
      and pretrained = "Inr (0::nat)" and init = demo_head] a
  have 1: "construct (Inr (0::nat)) demo_head [''learning_rate'' \<mapsto> PyFloat (1 / 10)] = Inl TypeError"
    by blast
  from configuration_errors_at_construction[where options = "[''dropout_rate'' \<mapsto> PyFloat (3 / 2)]"
      and r = "3 / 2" and pretrained = "Inr (0::nat)" and w = 0 and init = demo_head] b
  have 2: "construct (Inr (0::nat)) demo_head [''dropout_rate'' \<mapsto> PyFloat (3 / 2)] = Inl ValueError"
    by simp
  from configuration_errors_at_construction[where options = Map.empty
      and pretrained = "Inr (0::nat)" and init = demo_head and m = demo_model]
    construct_demo
  have 3: "0 \<le> dropout demo_model \<and> dropout demo_model \<le> 1 \<and>
      lstm_dropout (lstm demo_model) = dropout demo_model" by blast
  show ?thesis using a b(1) 1 2 3 construct_demo by simp
qed

end
